theory Spec2Isabelle
  imports Complex_Main
begin

section \<open>Arrays, slices and errors\<close>

text \<open>
  The estimation module works on two-dimensional numpy arrays. A two-dimensional array
  is modelled by its rows together with its column count (the column count is kept
  apart because an array with no rows still has one, and stacking depends on it).
  One-dimensional arrays are plain lists. Entries are real numbers: the model follows
  the shapes, the slicing, the control flow and the exceptions of the code, with exact
  arithmetic in place of binary floating point. Where numpy would leave the reals
  (a division of an array by zero, a square root of a negative number), the model
  stops with \<open>NonFinite\<close>.
\<close>

datatype error =
    ValueError string
  | TypeError string
  | AttributeError string
  | IndexError string
  | ZeroDivisionError
  | LinAlgError
  | NonFinite

record ndarray =
  ncols :: nat
  rws :: "real list list"

definition shape0 :: "ndarray \<Rightarrow> nat" where
  "shape0 a = length (rws a)"

definition shape1 :: "ndarray \<Rightarrow> nat" where
  "shape1 a = ncols a"

definition size_of :: "ndarray \<Rightarrow> nat" where
  "size_of a = shape0 a * shape1 a"

definition wf :: "ndarray \<Rightarrow> bool" where
  "wf a = list_all (\<lambda>r. length r = ncols a) (rws a)"

definition bind :: "error + 'a \<Rightarrow> ('a \<Rightarrow> error + 'b) \<Rightarrow> error + 'b" where
  "bind m f = (case m of Inl e \<Rightarrow> Inl e | Inr x \<Rightarrow> f x)"

text \<open>Python's \<open>xs[lo:hi]\<close>: a bound that is negative counts from the end, and every
  bound is clamped to the list.\<close>

definition slice_bound :: "nat \<Rightarrow> int \<Rightarrow> nat" where
  "slice_bound n i = (if i < 0 then nat (max 0 (int n + i)) else min n (nat i))"

definition py_slice :: "int option \<Rightarrow> int option \<Rightarrow> 'a list \<Rightarrow> 'a list" where
  "py_slice lo hi xs =
     (let n = length xs;
          a = (case lo of None \<Rightarrow> 0 | Some i \<Rightarrow> slice_bound n i);
          b = (case hi of None \<Rightarrow> n | Some i \<Rightarrow> slice_bound n i)
      in take (b - a) (drop a xs))"

text \<open>Python's \<open>xs[start:stop:-1]\<close>: the elements at \<open>start, start - 1, ...\<close> down to,
  and without, \<open>stop\<close>; \<open>stop = None\<close> runs to the first element.\<close>

definition py_slice_rev :: "int \<Rightarrow> int option \<Rightarrow> 'a list \<Rightarrow> 'a list" where
  "py_slice_rev start stop xs =
     (let n = int (length xs);
          a = (if start < 0 then max (- 1) (start + n) else min (n - 1) start);
          b = (case stop of None \<Rightarrow> - 1
               | Some s \<Rightarrow> if s < 0 then max (- 1) (s + n) else min (n - 1) s)
      in if a \<le> b then [] else rev (take (nat (a - b)) (drop (nat (b + 1)) xs)))"

definition col_slice :: "int option \<Rightarrow> int option \<Rightarrow> ndarray \<Rightarrow> ndarray" where
  "col_slice lo hi a =
     \<lparr>ncols = length (py_slice lo hi (replicate (ncols a) ())),
      rws = map (py_slice lo hi) (rws a)\<rparr>"

definition col_slice_rev :: "int \<Rightarrow> int option \<Rightarrow> ndarray \<Rightarrow> ndarray" where
  "col_slice_rev start stop a =
     \<lparr>ncols = length (py_slice_rev start stop (replicate (ncols a) ())),
      rws = map (py_slice_rev start stop) (rws a)\<rparr>"

definition row_slice :: "int option \<Rightarrow> int option \<Rightarrow> ndarray \<Rightarrow> ndarray" where
  "row_slice lo hi a = \<lparr>ncols = ncols a, rws = py_slice lo hi (rws a)\<rparr>"

definition zeros :: "nat \<Rightarrow> nat \<Rightarrow> ndarray" where
  "zeros n m = \<lparr>ncols = m, rws = replicate n (replicate m 0)\<rparr>"

definition ones :: "nat \<Rightarrow> real list" where
  "ones n = replicate n 1"

definition arange_plus1 :: "nat \<Rightarrow> real list" where
  "arange_plus1 n = map (\<lambda>j. real j + 1) [0..<n]"

definition atleast_2d :: "real list \<Rightarrow> ndarray" where
  "atleast_2d v = \<lparr>ncols = length v, rws = [v]\<rparr>"

definition vstack :: "ndarray \<Rightarrow> ndarray \<Rightarrow> error + ndarray" where
  "vstack a b =
     (if ncols a = ncols b then Inr \<lparr>ncols = ncols a, rws = rws a @ rws b\<rparr>
      else Inl (ValueError ''all the input array dimensions except for the concatenation axis must match exactly''))"

definition hstack :: "ndarray \<Rightarrow> ndarray \<Rightarrow> error + ndarray" where
  "hstack a b =
     (if shape0 a = shape0 b
      then Inr \<lparr>ncols = ncols a + ncols b, rws = map2 (@) (rws a) (rws b)\<rparr>
      else Inl (ValueError ''all the input array dimensions except for the concatenation axis must match exactly''))"

definition transpose_arr :: "ndarray \<Rightarrow> ndarray" where
  "transpose_arr a =
     \<lparr>ncols = shape0 a, rws = map (\<lambda>j. map (\<lambda>r. r ! j) (rws a)) [0..<ncols a]\<rparr>"

definition reshape_1d :: "ndarray \<Rightarrow> nat \<Rightarrow> error + real list" where
  "reshape_1d a n =
     (if size_of a = n then Inr (concat (rws a))
      else Inl (ValueError ''cannot reshape array''))"

fun diff_row :: "real list \<Rightarrow> real list" where
  "diff_row (x # y # zs) = (y - x) # diff_row (y # zs)"
| "diff_row _ = []"

definition np_diff :: "ndarray \<Rightarrow> ndarray" where
  "np_diff a = \<lparr>ncols = ncols a - 1, rws = map diff_row (rws a)\<rparr>"

definition set_col :: "ndarray \<Rightarrow> nat \<Rightarrow> real list \<Rightarrow> error + ndarray" where
  "set_col a j v =
     (if \<not> j < ncols a then Inl (IndexError ''index out of bounds'')
      else if length v \<noteq> shape0 a then Inl (ValueError ''could not broadcast input array'')
      else Inr \<lparr>ncols = ncols a, rws = map2 (\<lambda>r x. r[j := x]) (rws a) v\<rparr>)"

definition sub_scalar :: "ndarray \<Rightarrow> real \<Rightarrow> ndarray" where
  "sub_scalar a c = \<lparr>ncols = ncols a, rws = map (map (\<lambda>x. x - c)) (rws a)\<rparr>"

text \<open>Python's \<open>sub in s\<close> on strings.\<close>

fun starts_with :: "string \<Rightarrow> string \<Rightarrow> bool" where
  "starts_with s [] = True"
| "starts_with [] (c # cs) = False"
| "starts_with (d # ds) (c # cs) = (d = c \<and> starts_with ds cs)"

fun str_in :: "string \<Rightarrow> string \<Rightarrow> bool" where
  "str_in sub [] = (sub = [])"
| "str_in sub (c # cs) = (starts_with (c # cs) sub \<or> str_in sub cs)"

section \<open>The deterministic-term matrix builder\<close>

text \<open>
  \<open>_endog_matrices(endog_tot, diff_lags, deterministic)\<close>. Column \<open>j\<close> of
  \<open>delta_x\<close> is \<open>delta_y[:, j+p-2 : (None if j-1 < 0 else j-1) : -1].T.reshape(K*(p-1))\<close>;
  the reshape raises when the slice does not hold \<open>K*(p-1)\<close> numbers.
\<close>

definition delta_x_col :: "ndarray \<Rightarrow> nat \<Rightarrow> nat \<Rightarrow> nat \<Rightarrow> error + real list" where
  "delta_x_col delta_y K p j =
     reshape_1d
       (transpose_arr
          (col_slice_rev (int j + int p - 2)
             (if int j - 1 < 0 then None else Some (int j - 1)) delta_y))
       (K * (p - 1))"

fun fill_delta_x :: "ndarray \<Rightarrow> nat \<Rightarrow> nat \<Rightarrow> nat list \<Rightarrow> ndarray \<Rightarrow> error + ndarray" where
  "fill_delta_x delta_y K p [] delta_x = Inr delta_x"
| "fill_delta_x delta_y K p (j # js) delta_x =
     bind (delta_x_col delta_y K p j) (\<lambda>c.
     bind (set_col delta_x j c) (\<lambda>delta_x'.
     fill_delta_x delta_y K p js delta_x'))"

text \<open>\<open>seasons[i, i::num_of_seas] = 1\<close> on one row.\<close>

definition set_strided :: "real list \<Rightarrow> nat \<Rightarrow> nat \<Rightarrow> real \<Rightarrow> real list" where
  "set_strided row start step v =
     map (\<lambda>j. if start \<le> j \<and> (j - start) mod step = 0 then v else row ! j) [0..<length row]"

definition num_of_seas :: nat where
  "num_of_seas = 4"

fun mark_seasons :: "nat list \<Rightarrow> ndarray \<Rightarrow> ndarray" where
  "mark_seasons [] seasons = seasons"
| "mark_seasons (i # is) seasons =
     mark_seasons is
       (seasons\<lparr>rws := (rws seasons)[i := set_strided (rws seasons ! i) i num_of_seas 1]\<rparr>)"

definition seasons_matrix :: "nat \<Rightarrow> error + ndarray" where
  "seasons_matrix width =
     (let seasons = mark_seasons [0..<num_of_seas - 1] (zeros (num_of_seas - 1) width)
      in bind (hstack (col_slice (Some 1) (Some 4) seasons)
                      (col_slice None (Some (- 3)) seasons)) (\<lambda>seasons.
         Inr (sub_scalar seasons (1 / real num_of_seas))))"

definition endog_matrices ::
  "ndarray \<Rightarrow> nat \<Rightarrow> string \<Rightarrow> error + (ndarray \<times> ndarray \<times> ndarray \<times> ndarray)" where
  "endog_matrices endog_tot diff_lags deterministic =
     (let p = diff_lags + 1;
          y = endog_tot;
          K = shape0 y;
          y_1_T = col_slice (Some (int p)) None y;
          T = shape1 y_1_T;
          delta_y = np_diff y;
          delta_y_1_T = col_slice (Some (int p - 1)) None delta_y;
          y_min1 = col_slice (Some (int p - 1)) (Some (- 1)) y
      in bind (if str_in ''cc'' deterministic then vstack y_min1 (atleast_2d (ones T))
               else Inr y_min1) (\<lambda>y_min1.
         bind (fill_delta_x delta_y K p [0..<T] (zeros (diff_lags * K) T)) (\<lambda>delta_x.
         bind (if str_in ''co'' deterministic then vstack delta_x (atleast_2d (ones T))
               else Inr delta_x) (\<lambda>delta_x.
         bind (if str_in ''s'' deterministic
               then bind (seasons_matrix (shape1 delta_x)) (\<lambda>seasons. vstack delta_x seasons)
               else Inr delta_x) (\<lambda>delta_x.
         bind (if str_in ''lt'' deterministic then vstack delta_x (atleast_2d (arange_plus1 T))
               else Inr delta_x) (\<lambda>delta_x.
         Inr (y_1_T, delta_y_1_T, y_min1, delta_x)))))))"


section \<open>Matrix operations\<close>

definition identity :: "nat \<Rightarrow> ndarray" where
  "identity n = \<lparr>ncols = n, rws = map (\<lambda>i. map (\<lambda>j. if i = j then 1 else 0) [0..<n]) [0..<n]\<rparr>"

definition dot :: "ndarray \<Rightarrow> ndarray \<Rightarrow> error + ndarray" where
  "dot a b =
     (if ncols a = shape0 b
      then Inr \<lparr>ncols = ncols b,
               rws = map (\<lambda>r. map (\<lambda>j. sum_list (map (\<lambda>k. r ! k * (rws b ! k ! j)) [0..<ncols a]))
                                   [0..<ncols b]) (rws a)\<rparr>
      else Inl (ValueError ''shapes not aligned''))"

text \<open>Modelled from the spec: \<open>chain_dot\<close> (statsmodels.tools.tools) is not under src/;
  the spec reads each use as the product of the arguments in the order given. The product
  is nested to the right, \<open>a (b (c ...))\<close>.\<close>

fun chain_dot :: "ndarray list \<Rightarrow> error + ndarray" where
  "chain_dot [] = Inl (TypeError ''reduce() of empty sequence with no initial value'')"
| "chain_dot [a] = Inr a"
| "chain_dot (a # b # cs) = bind (chain_dot (b # cs)) (\<lambda>x. dot a x)"

text \<open>Elementwise arithmetic broadcasts: two extents are compatible when they are equal
  or one of them is 1.\<close>

definition broadcast_dim :: "nat \<Rightarrow> nat \<Rightarrow> nat option" where
  "broadcast_dim n m =
     (if n = m then Some n else if n = 1 then Some m else if m = 1 then Some n else None)"

definition stretch :: "ndarray \<Rightarrow> nat \<Rightarrow> nat \<Rightarrow> ndarray" where
  "stretch a n m =
     \<lparr>ncols = m,
      rws = map (\<lambda>i. map (\<lambda>j. rws a ! (if shape0 a = 1 then 0 else i)
                                       ! (if ncols a = 1 then 0 else j)) [0..<m]) [0..<n]\<rparr>"

definition elementwise :: "(real \<Rightarrow> real \<Rightarrow> real) \<Rightarrow> ndarray \<Rightarrow> ndarray \<Rightarrow> error + ndarray" where
  "elementwise f a b =
     (case (broadcast_dim (shape0 a) (shape0 b), broadcast_dim (ncols a) (ncols b)) of
        (Some n, Some m) \<Rightarrow>
          Inr \<lparr>ncols = m, rws = map2 (map2 f) (rws (stretch a n m)) (rws (stretch b n m))\<rparr>
      | _ \<Rightarrow> Inl (ValueError ''operands could not be broadcast together''))"

definition np_add :: "ndarray \<Rightarrow> ndarray \<Rightarrow> error + ndarray" where
  "np_add = elementwise (+)"

definition np_sub :: "ndarray \<Rightarrow> ndarray \<Rightarrow> error + ndarray" where
  "np_sub = elementwise (-)"

text \<open>An elementwise quotient with a zero divisor is \<open>inf\<close> or \<open>nan\<close> in numpy (a warning,
  no exception): the model stops with \<open>NonFinite\<close>.\<close>

definition np_div :: "ndarray \<Rightarrow> ndarray \<Rightarrow> error + ndarray" where
  "np_div a b =
     bind (elementwise (/) a b) (\<lambda>q.
       if list_ex (\<lambda>r. list_ex (\<lambda>x. x = 0) r) (rws (stretch b (shape0 q) (ncols q)))
       then Inl NonFinite else Inr q)"

definition map_arr :: "(real \<Rightarrow> real) \<Rightarrow> ndarray \<Rightarrow> ndarray" where
  "map_arr f a = \<lparr>ncols = ncols a, rws = map (map f) (rws a)\<rparr>"

definition neg :: "ndarray \<Rightarrow> ndarray" where
  "neg a = map_arr uminus a"

definition scale :: "real \<Rightarrow> ndarray \<Rightarrow> ndarray" where
  "scale c a = map_arr (\<lambda>x. c * x) a"

definition div_scalar :: "ndarray \<Rightarrow> real \<Rightarrow> error + ndarray" where
  "div_scalar a c =
     (if c = 0 \<and> size_of a \<noteq> 0 then Inl NonFinite else Inr (map_arr (\<lambda>x. x / c) a))"

definition hsplit :: "ndarray \<Rightarrow> int \<Rightarrow> ndarray \<times> ndarray" where
  "hsplit a c = (col_slice None (Some c) a, col_slice (Some c) None a)"

definition vsplit :: "ndarray \<Rightarrow> int \<Rightarrow> ndarray \<times> ndarray" where
  "vsplit a c = (row_slice None (Some c) a, row_slice (Some c) None a)"

definition diag_of :: "ndarray \<Rightarrow> real list" where
  "diag_of a = map (\<lambda>i. rws a ! i ! i) [0..<min (shape0 a) (ncols a)]"

definition diag_matrix :: "real list \<Rightarrow> ndarray" where
  "diag_matrix v =
     \<lparr>ncols = length v,
      rws = map (\<lambda>i. map (\<lambda>j. if i = j then v ! i else 0) [0..<length v]) [0..<length v]\<rparr>"

definition sqrt_1d :: "real list \<Rightarrow> error + real list" where
  "sqrt_1d v = (if list_ex (\<lambda>x. x < 0) v then Inl NonFinite else Inr (map sqrt v))"

definition kron :: "ndarray \<Rightarrow> ndarray \<Rightarrow> ndarray" where
  "kron a b =
     \<lparr>ncols = ncols a * ncols b,
      rws = map (\<lambda>i. map (\<lambda>j. rws a ! (i div shape0 b) ! (j div ncols b)
                                 * rws b ! (i mod shape0 b) ! (j mod ncols b))
                           [0..<ncols a * ncols b])
                [0..<shape0 a * shape0 b]\<rparr>"

definition block_diag :: "ndarray \<Rightarrow> ndarray \<Rightarrow> ndarray" where
  "block_diag a b =
     \<lparr>ncols = ncols a + ncols b,
      rws = map (\<lambda>r. r @ replicate (ncols b) 0) (rws a)
            @ map (\<lambda>r. replicate (ncols a) 0 @ r) (rws b)\<rparr>"

text \<open>\<open>np.bmat([[a, b], [c, d]]).A\<close>: each row of blocks is joined side by side, and the
  two joined rows are stacked.\<close>

definition bmat :: "ndarray \<Rightarrow> ndarray \<Rightarrow> ndarray \<Rightarrow> ndarray \<Rightarrow> error + ndarray" where
  "bmat a b c d =
     bind (hstack a b) (\<lambda>top. bind (hstack c d) (\<lambda>bottom. vstack top bottom))"

text \<open>\<open>reshape(shape, order="F")\<close>: the entries are read and written column by column.\<close>

definition reshape_F_1d :: "real list \<Rightarrow> nat \<Rightarrow> nat \<Rightarrow> error + ndarray" where
  "reshape_F_1d v n m =
     (if length v = n * m
      then Inr \<lparr>ncols = m, rws = map (\<lambda>i. map (\<lambda>j. v ! (j * n + i)) [0..<m]) [0..<n]\<rparr>
      else Inl (ValueError ''cannot reshape array''))"

definition reshape_F :: "ndarray \<Rightarrow> nat \<Rightarrow> nat \<Rightarrow> error + ndarray" where
  "reshape_F a n m =
     (if size_of a = n * m then reshape_F_1d (concat (rws (transpose_arr a))) n m
      else Inl (ValueError ''cannot reshape array''))"

section \<open>The linear-algebra routines of numpy and scipy\<close>

text \<open>
  \<open>numpy.linalg.inv\<close>, \<open>svd\<close>, \<open>eig\<close>, \<open>det\<close> and \<open>scipy.stats.norm.cdf\<close> are library
  routines; the model takes them as parameters. Each of the first four may raise.
  \<open>eig\<close> returns the eigenvalues and the matrix whose columns are the eigenvectors,
  \<open>svd\<close> the three factors \<open>u, s, v\<close>.
\<close>

record linalg =
  la_inv :: "ndarray \<Rightarrow> error + ndarray"
  la_svd :: "ndarray \<Rightarrow> error + (ndarray \<times> real list \<times> ndarray)"
  la_eig :: "ndarray \<Rightarrow> error + (real list \<times> ndarray)"
  la_det :: "ndarray \<Rightarrow> error + real"
  norm_cdf :: "real \<Rightarrow> real"

section \<open>The moment and projection helper\<close>

definition mat_sqrt :: "linalg \<Rightarrow> ndarray \<Rightarrow> error + ndarray" where
  "mat_sqrt la a2d =
     bind (la_svd la a2d) (\<lambda>(u, s, v).
     bind (sqrt_1d s) (\<lambda>s.
     chain_dot [u, diag_matrix s, v]))"

definition block_matrix_ymin1_deltax :: "linalg \<Rightarrow> ndarray \<Rightarrow> ndarray \<Rightarrow> error + ndarray" where
  "block_matrix_ymin1_deltax la y_min1 delta_x =
     bind (dot y_min1 (transpose_arr delta_x)) (\<lambda>b.
     bind (dot y_min1 (transpose_arr y_min1)) (\<lambda>yy.
     bind (hstack yy b) (\<lambda>top.
     bind (dot delta_x (transpose_arr delta_x)) (\<lambda>xx.
     bind (hstack (transpose_arr b) xx) (\<lambda>bottom.
     bind (vstack top bottom) (\<lambda>blocks.
     la_inv la blocks))))))"

definition need :: "string \<Rightarrow> 'a option \<Rightarrow> error + 'a" where
  "need attr x = (case x of None \<Rightarrow> Inl (AttributeError attr) | Some a \<Rightarrow> Inr a)"

text \<open>The results container may hold \<open>None\<close> for \<open>delta_x\<close> and \<open>delta_y_1_T\<close>, so the
  helpers take them as options; using a missing one raises \<open>AttributeError\<close> at the
  place of use.\<close>

definition r_matrices ::
  "linalg \<Rightarrow> nat \<Rightarrow> ndarray option \<Rightarrow> ndarray option \<Rightarrow> ndarray \<Rightarrow> error + (ndarray \<times> ndarray)" where
  "r_matrices la T delta_x delta_y_1_T y_min1 =
     bind (need ''T'' delta_x) (\<lambda>delta_x.
     bind (dot delta_x (transpose_arr delta_x)) (\<lambda>xx.
     bind (la_inv la xx) (\<lambda>xx_inv.
     bind (dot (transpose_arr delta_x) xx_inv) (\<lambda>h.
     bind (dot h delta_x) (\<lambda>proj.
     bind (np_sub (identity T) proj) (\<lambda>m.
     bind (need ''dot'' delta_y_1_T) (\<lambda>delta_y_1_T.
     bind (dot delta_y_1_T m) (\<lambda>r0.
     bind (dot y_min1 m) (\<lambda>r1.
     Inr (r0, r1))))))))))"

definition moment :: "ndarray \<Rightarrow> ndarray \<Rightarrow> nat \<Rightarrow> error + ndarray" where
  "moment Ri Rj T = bind (dot Ri (transpose_arr Rj)) (\<lambda>x. div_scalar x (real T))"

definition sij ::
  "linalg \<Rightarrow> ndarray option \<Rightarrow> ndarray option \<Rightarrow> ndarray \<Rightarrow>
   error + (ndarray \<times> ndarray \<times> ndarray \<times> ndarray \<times> ndarray \<times> real list \<times> ndarray)" where
  "sij la delta_x delta_y_1_T y_min1 =
     (let T = shape1 y_min1
      in bind (r_matrices la T delta_x delta_y_1_T y_min1) (\<lambda>(r0, r1).
         bind (moment r0 r0 T) (\<lambda>s00.
         bind (moment r0 r1 T) (\<lambda>s01.
         bind (moment r1 r0 T) (\<lambda>s10.
         bind (moment r1 r1 T) (\<lambda>s11.
         bind (mat_sqrt la s11) (\<lambda>root.
         bind (la_inv la root) (\<lambda>s11_inv.
         bind (la_inv la s00) (\<lambda>s00_inv.
         bind (chain_dot [s11_inv, s10, s00_inv, s01, s11_inv]) (\<lambda>prod.
         bind (la_eig la prod) (\<lambda>(lambd, v).
         Inr (s00, s01, s10, s11, s11_inv, lambd, v))))))))))))"


section \<open>The results container\<close>

text \<open>
  \<open>VECMResults\<close>: the field \<open>res_x\<close> is the attribute \<open>self.x\<close>. \<open>res_y_min1\<close> is never
  \<open>None\<close> in a constructed object (the constructor reads its shape), the other two supplied
  matrices may be.
\<close>

record VECMResults =
  res_y_all :: ndarray
  res_K :: nat
  res_p :: nat
  res_deterministic :: string
  res_r :: nat
  res_alpha :: ndarray
  res_beta :: ndarray
  res_det_coef_coint :: ndarray
  res_gamma :: ndarray
  res_det_coef :: ndarray
  res_sigma_u :: ndarray
  res_delta_y_1_T :: "ndarray option"
  res_y_min1 :: ndarray
  res_delta_x :: "ndarray option"
  res_T :: nat

text \<open>\<open>bool(a)\<close> of an array: ambiguous, and an exception, with more than one element.\<close>

definition truth_value :: "ndarray \<Rightarrow> error + bool" where
  "truth_value a =
     (if size_of a > 1
      then Inl (ValueError ''The truth value of an array with more than one element is ambiguous. Use a.any() or a.all()'')
      else if size_of a = 0 then Inr False
      else Inr (rws a ! 0 ! 0 \<noteq> 0))"

definition VECMResults_init ::
  "ndarray \<Rightarrow> nat \<Rightarrow> nat \<Rightarrow> ndarray \<Rightarrow> ndarray \<Rightarrow> ndarray \<Rightarrow> ndarray \<Rightarrow> string \<Rightarrow>
   ndarray option \<Rightarrow> ndarray option \<Rightarrow> ndarray option \<Rightarrow> error + VECMResults" where
  "VECMResults_init endog_tot level_var_lag_order coint_rank alpha beta gamma sigma_u
       deterministic delta_y_1_T y_min1 delta_x =
     (let K = shape0 endog_tot;
          p = level_var_lag_order;
          (beta', det_coef_coint) = vsplit beta (int K);
          (gamma', det_coef) = hsplit gamma (int K * (int p - 1))
      in bind (if y_min1 \<noteq> None then Inr True
               else if delta_x \<noteq> None then Inr True
               else case delta_y_1_T of None \<Rightarrow> Inr False | Some a \<Rightarrow> truth_value a)
           (\<lambda>supplied.
         bind (if supplied then Inr (delta_y_1_T, y_min1, delta_x)
               else bind (endog_matrices endog_tot level_var_lag_order deterministic)
                      (\<lambda>(y_1_T, dy, ym, dx). Inr (Some dy, Some ym, Some dx)))
           (\<lambda>(dy, ym, dx).
         bind (need ''shape'' ym) (\<lambda>ym.
         Inr \<lparr>res_y_all = endog_tot, res_K = K, res_p = p,
              res_deterministic = deterministic, res_r = coint_rank,
              res_alpha = alpha, res_beta = beta', res_det_coef_coint = det_coef_coint,
              res_gamma = gamma', res_det_coef = det_coef, res_sigma_u = sigma_u,
              res_delta_y_1_T = dy, res_y_min1 = ym, res_delta_x = dx,
              res_T = shape1 ym\<rparr>))))"

section \<open>The estimators\<close>

text \<open>\<open>VECM\<close>: the model object; \<open>vecm_p\<close> is \<open>None\<close> until \<open>fit\<close> sets the attribute.\<close>

record VECM =
  vecm_y :: ndarray
  vecm_neqs :: nat
  vecm_p :: "nat option"

datatype array_like = Array1 "real list" | Array2 ndarray

definition VECM_init :: "array_like \<Rightarrow> error + VECM" where
  "VECM_init endog_tot =
     (case endog_tot of
        Array1 v \<Rightarrow> Inl (ValueError ''Only gave one variable to VECM'')
      | Array2 endog \<Rightarrow>
          Inr \<lparr>vecm_y = transpose_arr endog, vecm_neqs = shape1 endog, vecm_p = None\<rparr>)"

datatype fit_result = Dict "(string \<times> ndarray) list" | Results VECMResults

definition ls_pi_gamma ::
  "linalg \<Rightarrow> ndarray \<Rightarrow> ndarray \<Rightarrow> ndarray \<Rightarrow> nat \<Rightarrow> string \<Rightarrow>
   error + (ndarray \<times> ndarray \<times> ndarray)" where
  "ls_pi_gamma la delta_y_1_T y_min1 delta_x diff_lags deterministic =
     (let K = shape0 delta_y_1_T; T = shape1 delta_y_1_T
      in bind (dot delta_y_1_T (transpose_arr y_min1)) (\<lambda>dy_y.
         bind (dot delta_y_1_T (transpose_arr delta_x)) (\<lambda>dy_x.
         bind (hstack dy_y dy_x) (\<lambda>mat1.
         bind (block_matrix_ymin1_deltax la y_min1 delta_x) (\<lambda>mat2.
         bind (dot mat1 mat2) (\<lambda>est_pi_gamma.
         (let pi_cols = K + (if str_in ''cc'' deterministic then 1 else 0)
                          + (if str_in ''lt'' deterministic then 1 else 0);
              (pi_hat, gamma_hat) = hsplit est_pi_gamma (int pi_cols)
          in bind (dot pi_hat y_min1) (\<lambda>pi_y.
             bind (np_sub delta_y_1_T pi_y) (\<lambda>d.
             bind (dot gamma_hat delta_x) (\<lambda>gamma_x.
             bind (np_sub d gamma_x) (\<lambda>A.
             (let p = diff_lags + 1
              in if int T - int K * int p = 0 then Inl ZeroDivisionError
                 else bind (dot A (transpose_arr A)) (\<lambda>AA.
                      Inr (pi_hat, gamma_hat,
                           scale (1 / real_of_int (int T - int K * int p)) AA))))))))))))))"

definition estimate_vecm_ls :: "linalg \<Rightarrow> VECM \<Rightarrow> nat \<Rightarrow> string \<Rightarrow> error + fit_result" where
  "estimate_vecm_ls la self diff_lags deterministic =
     bind (endog_matrices (vecm_y self) diff_lags deterministic)
       (\<lambda>(y_1_T, delta_y_1_T, y_min1, delta_x).
     bind (ls_pi_gamma la delta_y_1_T y_min1 delta_x diff_lags deterministic)
       (\<lambda>(pi_hat, gamma_hat, sigma_u_hat).
     Inr (Dict [(''Pi_hat'', pi_hat), (''Gamma_hat'', gamma_hat),
                (''Sigma_u_hat'', sigma_u_hat)])))"

definition estimate_vecm_egls ::
  "linalg \<Rightarrow> VECM \<Rightarrow> nat \<Rightarrow> string \<Rightarrow> nat \<Rightarrow> error + fit_result" where
  "estimate_vecm_egls la self diff_lags deterministic r =
     bind (endog_matrices (vecm_y self) diff_lags deterministic)
       (\<lambda>(y_1_T, delta_y_1_T, y_min1, delta_x).
     (let T = shape1 y_1_T
      in bind (ls_pi_gamma la delta_y_1_T y_min1 delta_x diff_lags deterministic)
           (\<lambda>(pi_hat, gamma_hat, sigma_u_hat).
         (let alpha_hat = col_slice None (Some (int r)) pi_hat
          in bind (r_matrices la T (Some delta_x) (Some delta_y_1_T) y_min1) (\<lambda>(r0, r1).
             (let r11 = row_slice None (Some (int r)) r1;
                  r12 = row_slice (Some (int r)) None r1
              in bind (la_inv la sigma_u_hat) (\<lambda>sigma_inv.
                 bind (dot (transpose_arr alpha_hat) sigma_inv) (\<lambda>alpha_Sigma.
                 bind (dot alpha_Sigma alpha_hat) (\<lambda>asa.
                 bind (la_inv la asa) (\<lambda>asa_inv.
                 bind (dot asa_inv alpha_Sigma) (\<lambda>b1.
                 bind (dot alpha_hat r11) (\<lambda>ar11.
                 bind (np_sub r0 ar11) (\<lambda>resid.
                 bind (dot b1 resid) (\<lambda>b2.
                 bind (dot b2 (transpose_arr r12)) (\<lambda>b3.
                 bind (dot r12 (transpose_arr r12)) (\<lambda>r12r12.
                 bind (la_inv la r12r12) (\<lambda>r12r12_inv.
                 bind (dot b3 r12r12_inv) (\<lambda>b4.
                 bind (vstack (identity r) (transpose_arr b4)) (\<lambda>beta_hhat.
                 Inr (Dict [(''alpha'', alpha_hat), (''beta'', beta_hhat),
                            (''Gamma'', gamma_hat), (''Sigma_u'', sigma_u_hat)]))))))))))))))))))))"


definition estimate_vecm_ml ::
  "linalg \<Rightarrow> VECM \<Rightarrow> nat \<Rightarrow> string \<Rightarrow> nat \<Rightarrow> error + fit_result" where
  "estimate_vecm_ml la self diff_lags deterministic r =
     bind (endog_matrices (vecm_y self) diff_lags deterministic)
       (\<lambda>(y_1_T, delta_y_1_T, y_min1, delta_x).
     (let T = shape1 y_1_T
      in bind (sij la (Some delta_x) (Some delta_y_1_T) y_min1)
           (\<lambda>(s00, s01, s10, s11, s11_inv, lambd, v).
         bind (dot (transpose_arr (col_slice None (Some (int r)) v)) s11_inv) (\<lambda>bt.
         (let beta_tilde = transpose_arr bt
          in bind (la_inv la (row_slice None (Some (int r)) beta_tilde)) (\<lambda>lead_inv.
             bind (dot beta_tilde lead_inv) (\<lambda>beta_tilde.
             bind (dot s01 beta_tilde) (\<lambda>a1.
             bind (dot (transpose_arr beta_tilde) s11) (\<lambda>a2.
             bind (dot a2 beta_tilde) (\<lambda>a3.
             bind (la_inv la a3) (\<lambda>a3_inv.
             bind (dot a1 a3_inv) (\<lambda>alpha_tilde.
             bind (dot alpha_tilde (transpose_arr beta_tilde)) (\<lambda>ab.
             bind (dot ab y_min1) (\<lambda>aby.
             bind (np_sub delta_y_1_T aby) (\<lambda>g1.
             bind (dot g1 (transpose_arr delta_x)) (\<lambda>g2.
             bind (dot delta_x (transpose_arr delta_x)) (\<lambda>xx.
             bind (la_inv la xx) (\<lambda>xx_inv.
             bind (dot g2 xx_inv) (\<lambda>gamma_tilde.
             bind (dot alpha_tilde (transpose_arr beta_tilde)) (\<lambda>ab.
             bind (dot ab y_min1) (\<lambda>aby.
             bind (np_sub delta_y_1_T aby) (\<lambda>t1.
             bind (dot gamma_tilde delta_x) (\<lambda>gx.
             bind (np_sub t1 gx) (\<lambda>temp.
             bind (dot temp (transpose_arr temp)) (\<lambda>tt.
             bind (div_scalar tt (real T)) (\<lambda>sigma_u_tilde.
             bind (need ''p'' (vecm_p self)) (\<lambda>p.
             bind (VECMResults_init (vecm_y self) p r alpha_tilde beta_tilde gamma_tilde
                     sigma_u_tilde deterministic (Some delta_y_1_T) (Some y_min1)
                     (Some delta_x)) (\<lambda>res.
             Inr (Results res)))))))))))))))))))))))))))))"

text \<open>
  \<open>VECM.fit(diff_lags=None, method="ml", deterministic="", coint_rank=1)\<close>. The lag count
  is a natural number or Python's \<open>None\<close> (the default). The call returns its result or
  exception together with the model object as the call leaves it: \<open>self.p\<close> is assigned
  on the first line, before the method name is looked at.
\<close>

definition fit ::
  "linalg \<Rightarrow> VECM \<Rightarrow> nat option \<Rightarrow> string \<Rightarrow> string \<Rightarrow> nat option \<Rightarrow>
   (error + fit_result) \<times> VECM" where
  "fit la self diff_lags method deterministic coint_rank =
     (case diff_lags of
        None \<Rightarrow> (Inl (TypeError ''unsupported operand type(s) for +: NoneType and int''), self)
      | Some lags \<Rightarrow>
          (let self = self\<lparr>vecm_p := Some (lags + 1)\<rparr>
           in if method = ''ls'' then (estimate_vecm_ls la self lags deterministic, self)
              else if method = ''egls''
              then (let coint_rank = (case coint_rank of None \<Rightarrow> 1 | Some r \<Rightarrow> r)
                    in (estimate_vecm_egls la self lags deterministic coint_rank, self))
              else if method = ''ml''
              then (let coint_rank = (case coint_rank of None \<Rightarrow> 1 | Some r \<Rightarrow> r)
                    in (estimate_vecm_ml la self lags deterministic coint_rank, self))
              else (Inl (ValueError (method @ '' not recognized, must be among ''
                                     @ ''('ls', 'egls', 'ml')'')), self)))"

section \<open>Derived quantities of the results container\<close>

definition log_det :: "real \<Rightarrow> error + real" where
  "log_det d = (if d \<le> 0 then Inl (ValueError ''math domain error'') else Inr (ln d))"

definition log_1d :: "real list \<Rightarrow> error + real list" where
  "log_1d v = (if list_ex (\<lambda>x. x \<le> 0) v then Inl NonFinite else Inr (map ln v))"

text \<open>\<open>llf\<close>: only the first \<open>r\<close> entries of \<open>np.log(1 - lambd)\<close> enter the sum, so only
  they can make it non-finite.\<close>

definition llf :: "linalg \<Rightarrow> VECMResults \<Rightarrow> error + real" where
  "llf la self =
     (let K = res_K self; T = res_T self; r = res_r self
      in bind (sij la (res_delta_x self) (res_delta_y_1_T self) (res_y_min1 self))
           (\<lambda>(s00, s01, s10, s11, s11_inv, lambd, v).
         bind (la_det la s00) (\<lambda>d.
         bind (log_det d) (\<lambda>logdet.
         bind (log_1d (py_slice None (Some (int r)) (map (\<lambda>x. 1 - x) lambd))) (\<lambda>logs.
         Inr (- real K * real T * ln (2 * pi) / 2
              - real T * (logdet + sum_list logs) / 2
              - real K * real T / 2))))))"

definition num_det_coef_coint :: "VECMResults \<Rightarrow> nat" where
  "num_det_coef_coint self = 0 + (if str_in ''cc'' (res_deterministic self) then 1 else 0)"

definition identity_int :: "int \<Rightarrow> error + ndarray" where
  "identity_int n =
     (if n < 0 then Inl (ValueError ''negative dimensions are not allowed'')
      else Inr (identity (nat n)))"

definition cov_params :: "linalg \<Rightarrow> VECMResults \<Rightarrow> error + ndarray" where
  "cov_params la self =
     (let beta = res_beta self;
          dt = res_deterministic self;
          num_det = (if str_in ''co'' dt then 1 else 0) + 3 * (if str_in ''s'' dt then 1 else 0)
                    + (if str_in ''lt'' dt then 1 else (0::int))
      in bind (identity_int (int (res_K self) * (int (res_p self) - 1) + num_det)) (\<lambda>idm.
         (let b_id = block_diag beta idm;
              y_min1 = (if num_det_coef_coint self > 0
                        then row_slice None (Some (- int (num_det_coef_coint self))) (res_y_min1 self)
                        else res_y_min1 self)
          in bind (dot (transpose_arr beta) y_min1) (\<lambda>b_y.
             bind (dot b_y (transpose_arr b_y)) (\<lambda>omega11.
             bind (need ''T'' (res_delta_x self)) (\<lambda>delta_x.
             bind (dot b_y (transpose_arr delta_x)) (\<lambda>omega12.
             (let omega21 = transpose_arr omega12
              in bind (dot delta_x (transpose_arr delta_x)) (\<lambda>omega22.
                 bind (bmat omega11 omega12 omega21 omega22) (\<lambda>omega.
                 bind (la_inv la omega) (\<lambda>omega_inv.
                 bind (dot b_id omega_inv) (\<lambda>m.
                 bind (dot m (transpose_arr b_id)) (\<lambda>mat1.
                 Inr (kron mat1 (res_sigma_u self)))))))))))))))"

definition stderr_params :: "linalg \<Rightarrow> VECMResults \<Rightarrow> error + real list" where
  "stderr_params la self = bind (cov_params la self) (\<lambda>c. sqrt_1d (diag_of c))"

definition stderr_coint :: "linalg \<Rightarrow> VECMResults \<Rightarrow> error + ndarray" where
  "stderr_coint la self =
     bind (r_matrices la (res_T self) (res_delta_x self) (res_delta_y_1_T self)
             (res_y_min1 self)) (\<lambda>(r0, r1).
     (let r12 = row_slice (Some (int (res_r self))) None r1
      in bind (dot r12 (transpose_arr r12)) (\<lambda>r12r12.
         bind (la_inv la r12r12) (\<lambda>mat1.
         (let det = shape0 (res_det_coef_coint self);
              n = int (res_K self) - int (res_r self) + int det
          in bind (identity_int n) (\<lambda>idm.
             bind (la_inv la (res_sigma_u self)) (\<lambda>sigma_inv.
             bind (chain_dot [transpose_arr (res_alpha self), sigma_inv, res_alpha self]) (\<lambda>asa.
             bind (la_inv la asa) (\<lambda>asa_inv.
             (let mat2 = kron idm asa_inv;
                  first_rows = zeros (res_r self) (res_r self)
              in bind (dot mat1 mat2) (\<lambda>prod.
                 bind (sqrt_1d (diag_of prod)) (\<lambda>last_rows_1d.
                 bind (reshape_F_1d last_rows_1d (nat n) (res_r self)) (\<lambda>last_rows.
                 vstack first_rows last_rows)))))))))))))"

definition stderr_alpha :: "linalg \<Rightarrow> VECMResults \<Rightarrow> error + ndarray" where
  "stderr_alpha la self =
     bind (stderr_params la self) (\<lambda>sp.
     reshape_F_1d (py_slice None (Some (int (size_of (res_alpha self)))) sp)
       (shape0 (res_alpha self)) (shape1 (res_alpha self)))"

definition stderr_beta :: "linalg \<Rightarrow> VECMResults \<Rightarrow> error + ndarray" where
  "stderr_beta la self =
     bind (stderr_coint la self) (\<lambda>sc.
     reshape_F (row_slice None (Some (int (size_of (res_beta self)))) sc)
       (shape0 (res_beta self)) (shape1 (res_beta self)))"

definition stderr_det_coef_coint :: "linalg \<Rightarrow> VECMResults \<Rightarrow> error + ndarray" where
  "stderr_det_coef_coint la self =
     (if size_of (res_det_coef_coint self) = 0 then Inr (res_det_coef_coint self)
      else bind (stderr_coint la self) (\<lambda>sc.
           reshape_F (row_slice (Some (int (size_of (res_beta self)))) None sc)
             (shape0 (res_det_coef_coint self)) (shape1 (res_det_coef_coint self))))"

definition stderr_gamma :: "linalg \<Rightarrow> VECMResults \<Rightarrow> error + ndarray" where
  "stderr_gamma la self =
     (let start = shape0 (res_alpha self)
                  * (shape0 (res_beta self) + shape0 (res_det_coef_coint self))
      in bind (stderr_params la self) (\<lambda>sp.
         reshape_F_1d
           (py_slice (Some (int start)) (Some (int (start + size_of (res_gamma self)))) sp)
           (shape0 (res_gamma self)) (shape1 (res_gamma self))))"

definition stderr_det_coef :: "linalg \<Rightarrow> VECMResults \<Rightarrow> error + ndarray" where
  "stderr_det_coef la self =
     (if size_of (res_det_coef self) = 0 then Inr (res_det_coef self)
      else bind (stderr_params la self) (\<lambda>sp.
           reshape_F_1d (py_slice (Some (- int (size_of (res_det_coef self)))) None sp)
             (shape0 (res_det_coef self)) (shape1 (res_det_coef self))))"


definition tvalues_alpha :: "linalg \<Rightarrow> VECMResults \<Rightarrow> error + ndarray" where
  "tvalues_alpha la self = bind (stderr_alpha la self) (\<lambda>se. np_div (res_alpha self) se)"

definition tvalues_beta :: "linalg \<Rightarrow> VECMResults \<Rightarrow> error + ndarray" where
  "tvalues_beta la self =
     (let first_rows = zeros (res_r self) (res_r self)
      in bind (stderr_beta la self) (\<lambda>se.
         bind (np_div (row_slice (Some (int (res_r self))) None (res_beta self))
                      (row_slice (Some (int (res_r self))) None se)) (\<lambda>last_rows.
         vstack first_rows last_rows)))"

definition tvalues_det_coef_coint :: "linalg \<Rightarrow> VECMResults \<Rightarrow> error + ndarray" where
  "tvalues_det_coef_coint la self =
     (if size_of (res_det_coef_coint self) = 0 then Inr (res_det_coef_coint self)
      else bind (stderr_det_coef_coint la self) (\<lambda>se. np_div (res_det_coef_coint self) se))"

definition tvalues_gamma :: "linalg \<Rightarrow> VECMResults \<Rightarrow> error + ndarray" where
  "tvalues_gamma la self = bind (stderr_gamma la self) (\<lambda>se. np_div (res_gamma self) se)"

definition tvalues_det_coef :: "linalg \<Rightarrow> VECMResults \<Rightarrow> error + ndarray" where
  "tvalues_det_coef la self =
     (if size_of (res_det_coef self) = 0 then Inr (res_det_coef self)
      else bind (stderr_det_coef la self) (\<lambda>se. np_div (res_det_coef self) se))"

text \<open>\<open>(1 - scipy.stats.norm.cdf(abs(t))) * 2\<close>, entry by entry.\<close>

definition two_sided :: "linalg \<Rightarrow> ndarray \<Rightarrow> ndarray" where
  "two_sided la t = map_arr (\<lambda>x. (1 - norm_cdf la \<bar>x\<bar>) * 2) t"

definition pvalues_alpha :: "linalg \<Rightarrow> VECMResults \<Rightarrow> error + ndarray" where
  "pvalues_alpha la self = bind (tvalues_alpha la self) (\<lambda>t. Inr (two_sided la t))"

definition pvalues_beta :: "linalg \<Rightarrow> VECMResults \<Rightarrow> error + ndarray" where
  "pvalues_beta la self =
     (let first_rows = zeros (res_r self) (res_r self)
      in bind (tvalues_beta la self) (\<lambda>t.
         (let tval_last = row_slice (Some (int (res_r self))) None t
          in vstack first_rows (two_sided la tval_last))))"

definition pvalues_det_coef_coint :: "linalg \<Rightarrow> VECMResults \<Rightarrow> error + ndarray" where
  "pvalues_det_coef_coint la self =
     (if size_of (res_det_coef_coint self) = 0 then Inr (res_det_coef_coint self)
      else bind (tvalues_det_coef_coint la self) (\<lambda>t. Inr (two_sided la t)))"

definition pvalues_gamma :: "linalg \<Rightarrow> VECMResults \<Rightarrow> error + ndarray" where
  "pvalues_gamma la self = bind (tvalues_gamma la self) (\<lambda>t. Inr (two_sided la t))"

definition pvalues_det_coef :: "linalg \<Rightarrow> VECMResults \<Rightarrow> error + ndarray" where
  "pvalues_det_coef la self =
     (if size_of (res_det_coef self) = 0 then Inr (res_det_coef self)
      else bind (tvalues_det_coef la self) (\<lambda>t. Inr (two_sided la t)))"

text \<open>
  \<open>var_repr\<close>. \<open>A\<close> is an array of shape \<open>(p, K, K)\<close>, modelled as the list of its \<open>p\<close>
  matrices. An assignment \<open>A[i] = x\<close> raises \<open>IndexError\<close> when \<open>i\<close> is out of range and
  \<open>ValueError\<close> when \<open>x\<close> does not broadcast to \<open>K \<times> K\<close>.
\<close>

definition assign_block ::
  "ndarray list \<Rightarrow> nat \<Rightarrow> int \<Rightarrow> ndarray \<Rightarrow> error + ndarray list" where
  "assign_block A K i x =
     (let n = int (length A); j = (if i < 0 then n + i else i)
      in if j < 0 \<or> n \<le> j then Inl (IndexError ''index out of bounds'')
         else if (shape0 x = K \<or> shape0 x = 1) \<and> (ncols x = K \<or> ncols x = 1)
         then Inr (A[nat j := stretch x K K])
         else Inl (ValueError ''could not broadcast input array''))"

fun var_repr_loop ::
  "ndarray \<Rightarrow> nat \<Rightarrow> nat list \<Rightarrow> ndarray list \<Rightarrow> error + ndarray list" where
  "var_repr_loop gamma K [] A = Inr A"
| "var_repr_loop gamma K (i # is) A =
     bind (np_sub (col_slice (Some (int K * int i)) (Some (int K * (int i + 1))) gamma)
                  (col_slice (Some (int K * (int i - 1))) (Some (int K * int i)) gamma)) (\<lambda>x.
     bind (assign_block A K (int i) x) (\<lambda>A.
     var_repr_loop gamma K is A))"

definition var_repr :: "VECMResults \<Rightarrow> error + ndarray list" where
  "var_repr self =
     bind (dot (res_alpha self) (transpose_arr (res_beta self))) (\<lambda>pi_mat.
     (let gamma = res_gamma self;
          K = res_K self;
          A = replicate (res_p self) (zeros K K)
      in bind (np_add pi_mat (identity K)) (\<lambda>x.
         bind (np_add x (col_slice None (Some (int K)) gamma)) (\<lambda>x.
         bind (assign_block A K 0 x) (\<lambda>A.
         bind (assign_block A K (int (res_p self) - 1)
                 (neg (col_slice (Some (int K * (int (res_p self) - 2))) None gamma))) (\<lambda>A.
         var_repr_loop gamma K [1..<res_p self - 1] A))))))"

section \<open>Matrices by their entries\<close>

text \<open>The array of shape \<open>(n, m)\<close> whose entry in row \<open>i\<close> and column \<open>j\<close> is \<open>f i j\<close>.\<close>

definition mk :: "nat \<Rightarrow> nat \<Rightarrow> (nat \<Rightarrow> nat \<Rightarrow> real) \<Rightarrow> ndarray" where
  "mk n m f = \<lparr>ncols = m, rws = map (\<lambda>i. map (\<lambda>j. f i j) [0..<m]) [0..<n]\<rparr>"

text \<open>
  The level-VAR representation in the spec's words: entry \<open>(a, b)\<close> of the \<open>i\<close>-th
  coefficient matrix. The first matrix is \<open>Pi + I\<close> plus the first \<open>K\<close> columns of \<open>Gamma\<close>
  with \<open>Pi = alpha beta\<^sup>T\<close>, the last is minus the last \<open>K\<close> columns of \<open>Gamma\<close>, and the
  ones between are differences of consecutive blocks of \<open>K\<close> columns.
\<close>

definition level_var_entry :: "VECMResults \<Rightarrow> nat \<Rightarrow> nat \<Rightarrow> nat \<Rightarrow> real" where
  "level_var_entry self i a b =
     (let K = res_K self; p = res_p self
      in if i = 0
         then sum_list (map (\<lambda>k. rws (res_alpha self) ! a ! k * rws (res_beta self) ! b ! k)
                          [0..<ncols (res_alpha self)])
              + (if a = b then 1 else 0) + rws (res_gamma self) ! a ! b
         else if i = p - 1 then - (rws (res_gamma self) ! a ! (K * (p - 2) + b))
         else rws (res_gamma self) ! a ! (K * i + b)
              - rws (res_gamma self) ! a ! (K * (i - 1) + b))"

text \<open>
  The seasonal rows in the spec's words: row \<open>i\<close> of the period-4 indicator pattern marks
  the columns \<open>j\<close> with \<open>j mod 4 = i\<close>; rotated so that it starts at its second position,
  column \<open>j\<close> reads position \<open>j + 1\<close> of the pattern; and \<open>1 / 4\<close> is subtracted.
\<close>

definition seasonal_entry :: "nat \<Rightarrow> nat \<Rightarrow> real" where
  "seasonal_entry i j = (if (j + 1) mod 4 = i then 1 else 0) - 1 / 4"

section \<open>Example inputs\<close>

text \<open>A linear-algebra layer in which every routine raises: it shows which results do not
  depend on linear algebra at all.\<close>

definition la_fail :: linalg where
  "la_fail = \<lparr>la_inv = (\<lambda>a. Inl LinAlgError), la_svd = (\<lambda>a. Inl LinAlgError),
              la_eig = (\<lambda>a. Inl LinAlgError), la_det = (\<lambda>a. Inl LinAlgError),
              norm_cdf = (\<lambda>x. 0)\<rparr>"

text \<open>A model object over a series of two variables and seven observations, before any
  call of \<open>fit\<close>.\<close>

definition model0 :: VECM where
  "model0 = \<lparr>vecm_y = \<lparr>ncols = 7, rws = [[1, 2, 4, 7, 11, 16, 22], [0, 1, 1, 2, 3, 5, 8]]\<rparr>,
             vecm_neqs = 2, vecm_p = None\<rparr>"

text \<open>Two series of two variables, with five and with seven observations, and parameter
  estimates of the shapes a model with two variables, rank one and VAR order two has.\<close>

definition y25 :: ndarray where
  "y25 = \<lparr>ncols = 5, rws = [[1, 2, 4, 7, 11], [0, 1, 1, 2, 3]]\<rparr>"

definition y27 :: ndarray where
  "y27 = \<lparr>ncols = 7, rws = [[1, 2, 4, 7, 11, 16, 22], [0, 1, 1, 2, 3, 5, 8]]\<rparr>"

definition alpha0 :: ndarray where
  "alpha0 = \<lparr>ncols = 1, rws = [[1 / 2], [- 1]]\<rparr>"

definition beta0 :: ndarray where
  "beta0 = \<lparr>ncols = 1, rws = [[1], [2]]\<rparr>"

definition gamma0 :: ndarray where
  "gamma0 = \<lparr>ncols = 2, rws = [[1, 2], [3, 4]]\<rparr>"

definition gamma_s :: ndarray where
  "gamma_s = \<lparr>ncols = 5, rws = [[1, 2, 1, 1, 1], [3, 4, 1, 1, 1]]\<rparr>"

definition sigma0 :: ndarray where
  "sigma0 = \<lparr>ncols = 2, rws = [[1, 0], [0, 1]]\<rparr>"

text \<open>The three matrices the builder derives from \<open>y27\<close> with one lagged difference and
  no deterministic terms.\<close>

definition dy27 :: ndarray where
  "dy27 = \<lparr>ncols = 5, rws = [[2, 3, 4, 5, 6], [0, 1, 1, 2, 3]]\<rparr>"

definition ym27 :: ndarray where
  "ym27 = \<lparr>ncols = 5, rws = [[2, 4, 7, 11, 16], [1, 1, 2, 3, 5]]\<rparr>"

definition dx27 :: ndarray where
  "dx27 = \<lparr>ncols = 5, rws = [[1, 2, 3, 4, 5], [1, 0, 1, 1, 2]]\<rparr>"

text \<open>The container the constructor builds from these estimates and matrices.\<close>

definition results0 :: VECMResults where
  "results0 =
     \<lparr>res_y_all = y27, res_K = 2, res_p = 2, res_deterministic = '''', res_r = 1,
      res_alpha = alpha0, res_beta = beta0,
      res_det_coef_coint = \<lparr>ncols = 1, rws = []\<rparr>,
      res_gamma = gamma0, res_det_coef = \<lparr>ncols = 0, rws = [[], []]\<rparr>,
      res_sigma_u = sigma0, res_delta_y_1_T = Some dy27, res_y_min1 = ym27,
      res_delta_x = Some dx27, res_T = 5\<rparr>"

text \<open>Containers with the same estimates and VAR orders three and five (two and four
  lagged differences).\<close>

definition results_lag2 :: VECMResults where
  "results_lag2 =
     results0\<lparr>res_p := 3, res_gamma := \<lparr>ncols = 4, rws = [[1, 2, 5, 6], [3, 4, 7, 8]]\<rparr>\<rparr>"

definition results_lag4 :: VECMResults where
  "results_lag4 =
     results0\<lparr>res_p := 5,
              res_gamma := \<lparr>ncols = 8, rws = [[1, 2, 5, 6, 9, 8, 7, 6], [3, 4, 7, 8, 5, 4, 3, 2]]\<rparr>\<rparr>"

text \<open>
  Linear algebra on diagonal matrices, in exact arithmetic. On a diagonal matrix the
  inverse is the diagonal of the reciprocals (and does not exist when an entry is zero),
  the determinant is the product of the diagonal, an eigen-decomposition is the diagonal
  itself, in the order of the diagonal, with the identity as matrix of eigenvectors (what
  \<open>numpy.linalg.eig\<close> returns on a diagonal matrix), and a singular-value decomposition of
  a diagonal matrix with non-negative, descending entries is the identity, the diagonal
  and the identity. Every routine raises elsewhere: the examples below apply them to
  diagonal matrices only. No example evaluates the normal distribution function.
\<close>

definition is_diag :: "ndarray \<Rightarrow> bool" where
  "is_diag a = (shape0 a = ncols a \<and> wf a \<and>
     list_all (\<lambda>i. list_all (\<lambda>j. i = j \<or> rws a ! i ! j = 0) [0..<ncols a]) [0..<ncols a])"

definition la_diag :: linalg where
  "la_diag =
     \<lparr>la_inv = (\<lambda>a. if is_diag a \<and> list_all (\<lambda>x. x \<noteq> 0) (diag_of a)
                     then Inr (diag_matrix (map inverse (diag_of a))) else Inl LinAlgError),
      la_svd = (\<lambda>a. if is_diag a \<and> list_all (\<lambda>x. 0 \<le> x) (diag_of a) \<and> sorted (rev (diag_of a))
                     then Inr (identity (ncols a), diag_of a, identity (ncols a))
                     else Inl LinAlgError),
      la_eig = (\<lambda>a. if is_diag a then Inr (diag_of a, identity (ncols a)) else Inl LinAlgError),
      la_det = (\<lambda>a. if is_diag a then Inr (prod_list (diag_of a)) else Inl LinAlgError),
      norm_cdf = (\<lambda>x. 1 / 2)\<rparr>"

text \<open>
  A series of two variables and eleven observations. The first variable moves in the
  first half of the sample and the second in the second half, so every moment matrix of
  the estimator with one lagged difference is diagonal.
\<close>

definition y211 :: ndarray where
  "y211 = \<lparr>ncols = 11, rws = [[0, 3, 0, 3, 0, 0, 0, 0, 0, 0, 0], [0, 0, 0, 0, 0, 0, 3, 0, - 3, 0, 3]]\<rparr>"

text \<open>The three matrices the builder derives from \<open>y211\<close> with one lagged difference and
  no deterministic terms.\<close>

definition dy211 :: ndarray where
  "dy211 = \<lparr>ncols = 9, rws = [[- 3, 3, - 3, 0, 0, 0, 0, 0, 0], [0, 0, 0, 0, 3, - 3, - 3, 3, 3]]\<rparr>"

definition ym211 :: ndarray where
  "ym211 = \<lparr>ncols = 9, rws = [[3, 0, 3, 0, 0, 0, 0, 0, 0], [0, 0, 0, 0, 0, 3, 0, - 3, 0]]\<rparr>"

definition dx211 :: ndarray where
  "dx211 = \<lparr>ncols = 9, rws = [[3, - 3, 3, - 3, 0, 0, 0, 0, 0], [0, 0, 0, 0, 0, 3, - 3, - 3, 3]]\<rparr>"

text \<open>The residual matrices of the projection helper on them, and the moment matrices
  \<open>S00\<close> and \<open>S01 = S10\<close>; \<open>S11\<close> is the identity.\<close>

definition r0_211 :: ndarray where
  "r0_211 = \<lparr>ncols = 9, rws = [[- (3 / 4), 3 / 4, - (3 / 4), - (9 / 4), 0, 0, 0, 0, 0], [0, 0, 0, 0, 3, - 3, - 3, 3, 3]]\<rparr>"

definition r1_211 :: ndarray where
  "r1_211 = \<lparr>ncols = 9, rws = [[3 / 2, 3 / 2, 3 / 2, 3 / 2, 0, 0, 0, 0, 0], [0, 0, 0, 0, 0, 3 / 2, 3 / 2, - (3 / 2), - (3 / 2)]]\<rparr>"

definition s00_211 :: ndarray where
  "s00_211 = \<lparr>ncols = 2, rws = [[3 / 4, 0], [0, 5]]\<rparr>"

definition s01_211 :: ndarray where
  "s01_211 = \<lparr>ncols = 2, rws = [[- (1 / 2), 0], [0, - 2]]\<rparr>"

definition id2 :: ndarray where
  "id2 = \<lparr>ncols = 2, rws = [[1, 0], [0, 1]]\<rparr>"

text \<open>The model object over \<open>y211\<close>, and the container the maximum-likelihood estimator
  returns for it with one lagged difference, no deterministic terms and rank one.\<close>

definition model2 :: VECM where
  "model2 = \<lparr>vecm_y = y211, vecm_neqs = 2, vecm_p = None\<rparr>"

definition res211 :: VECMResults where
  "res211 =
     \<lparr>res_y_all = y211, res_K = 2, res_p = 2, res_deterministic = '''', res_r = 1,
      res_alpha = \<lparr>ncols = 1, rws = [[- (1 / 2)], [0]]\<rparr>,
      res_beta = \<lparr>ncols = 1, rws = [[1], [0]]\<rparr>,
      res_det_coef_coint = \<lparr>ncols = 1, rws = []\<rparr>,
      res_gamma = \<lparr>ncols = 2, rws = [[- (1 / 2), 0], [0, 0]]\<rparr>,
      res_det_coef = \<lparr>ncols = 0, rws = [[], []]\<rparr>,
      res_sigma_u = \<lparr>ncols = 2, rws = [[1 / 2, 0], [0, 5]]\<rparr>,
      res_delta_y_1_T = Some dy211, res_y_min1 = ym211, res_delta_x = Some dx211, res_T = 9\<rparr>"

section \<open>The closed-form log-likelihood\<close>

text \<open>
  The Gaussian log-likelihood of the reduced-rank regression as a function of the
  eigenvalues that enter it: with \<open>K\<close> equations, \<open>T\<close> effective observations, \<open>d\<close> the
  determinant of \<open>S00\<close> and \<open>eigs\<close> the eigenvalues used,
  \<open>- K T log(2 pi) / 2 - T (log d + sum of log(1 - x) over eigs) / 2 - K T / 2\<close>.
  The second definition follows the words of the specification, not the code: the
  eigenvalues the specification has enter the sum are the \<open>r\<close> largest by magnitude.
\<close>

definition llf_formula :: "nat \<Rightarrow> nat \<Rightarrow> real \<Rightarrow> real list \<Rightarrow> real" where
  "llf_formula K T d eigs =
     - real K * real T * ln (2 * pi) / 2
     - real T * (ln d + sum_list (map (\<lambda>x. ln (1 - x)) eigs)) / 2
     - real K * real T / 2"

definition top_by_magnitude :: "nat \<Rightarrow> real list \<Rightarrow> real list" where
  "top_by_magnitude r eigs = take r (rev (sort_key abs eigs))"

section \<open>Properties\<close>

subsection \<open>The error monad\<close>

lemma bind_Inr [simp]: "bind (Inr x) f = f x"
  by (simp add: bind_def)

lemma bind_Inl [simp]: "bind (Inl e) f = Inl e"
  by (simp add: bind_def)

lemma bind_Inr_iff: "bind m f = Inr y \<longleftrightarrow> (\<exists>x. m = Inr x \<and> f x = Inr y)"
  by (cases m) simp_all

subsection \<open>What \<open>fit\<close> returns\<close>

lemma estimate_vecm_egls_dict:
  assumes "estimate_vecm_egls la self lags det r = Inr x"
  shows "\<exists>a b g s. x = Dict [(''alpha'', a), (''beta'', b), (''Gamma'', g), (''Sigma_u'', s)]"
  using assms unfolding estimate_vecm_egls_def Let_def
  by (auto simp: bind_Inr_iff split: prod.splits)

lemma estimate_vecm_ls_dict:
  assumes "estimate_vecm_ls la self lags det = Inr x"
  shows "\<exists>a b s. x = Dict [(''Pi_hat'', a), (''Gamma_hat'', b), (''Sigma_u_hat'', s)]"
  using assms unfolding estimate_vecm_ls_def Let_def
  by (auto simp: bind_Inr_iff split: prod.splits)

lemma estimate_vecm_ml_results:
  assumes "estimate_vecm_ml la self lags det r = Inr x"
  shows "\<exists>res. x = Results res"
  using assms unfolding estimate_vecm_ml_def Let_def
  by (auto simp: bind_Inr_iff split: prod.splits)

text \<open>
  C1. The claim has \<open>fit\<close> return a results object for \<open>method = "egls"\<close>. In the code the
  EGLS estimator returns a plain mapping with the four keys alpha, beta, Gamma and
  Sigma_u, so no call of \<open>fit\<close> with \<open>method = "egls"\<close> ever returns a results object,
  whatever the series, the lag count, the deterministic terms and the rank.
\<close>

theorem fit_egls_never_results:
  "fst (fit la self diff_lags ''egls'' deterministic coint_rank) \<noteq> Inr (Results res)"
proof (cases diff_lags)
  case None
  then show ?thesis by (simp add: fit_def)
next
  case (Some lags)
  show ?thesis
  proof
    assume a: "fst (fit la self diff_lags ''egls'' deterministic coint_rank) = Inr (Results res)"
    from a Some obtain r where
      "estimate_vecm_egls la (self\<lparr>vecm_p := Some (lags + 1)\<rparr>) lags deterministic r
         = Inr (Results res)"
      by (auto simp: fit_def Let_def)
    from estimate_vecm_egls_dict [OF this] show False by auto
  qed
qed

text \<open>
  C6 (as amended). A call of \<open>fit\<close> with a method name other than ls, egls and ml and with
  a lag count raises ValueError, and the message names the three allowed methods; the
  model object leaves the call with its attribute \<open>p\<close> set to the lag count plus one and
  is otherwise unchanged. With the lag count left at its default \<open>None\<close> the call raises
  TypeError and the model object is unchanged.
\<close>

theorem fit_unknown_method:
  "method \<noteq> ''ls'' \<and> method \<noteq> ''egls'' \<and> method \<noteq> ''ml'' \<Longrightarrow>
   fit la self (Some lags) method deterministic coint_rank =
     (Inl (ValueError (method @ '' not recognized, must be among ('ls', 'egls', 'ml')'')),
      self\<lparr>vecm_p := Some (lags + 1)\<rparr>)
   \<and> fit la self None method deterministic coint_rank =
     (Inl (TypeError ''unsupported operand type(s) for +: NoneType and int''), self)"
  by (simp add: fit_def)

theorem fit_unknown_method_witness:
  "''xyz'' \<noteq> ''ls'' \<and> ''xyz'' \<noteq> ''egls'' \<and> ''xyz'' \<noteq> ''ml'' \<and>
   fit la_fail model0 (Some 1) ''xyz'' '''' None =
     (Inl (ValueError ''xyz not recognized, must be among ('ls', 'egls', 'ml')''),
      model0\<lparr>vecm_p := Some 2\<rparr>)"
  using fit_unknown_method [of "''xyz''" la_fail model0 1 "''''" None] by simp

text \<open>The claim as stated fails: the failed call has changed the model object.\<close>

theorem fit_unknown_method_counterexample:
  "snd (fit la_fail model0 (Some 1) ''xyz'' '''' None) \<noteq> model0"
  by (simp add: fit_def model0_def)

subsection \<open>The constructor of the results container\<close>

lemma results0_constructed:
  "VECMResults_init y27 2 1 alpha0 beta0 gamma0 sigma0 '''' (Some dy27) (Some ym27) (Some dx27)
     = Inr results0"
  by (simp add: VECMResults_init_def need_def Let_def vsplit_def hsplit_def row_slice_def
      col_slice_def py_slice_def slice_bound_def shape0_def shape1_def results0_def
      y27_def alpha0_def beta0_def gamma0_def sigma0_def ym27_def)

lemma builder_y27_lag1:
  "endog_matrices y27 1 '''' =
     Inr (\<lparr>ncols = 5, rws = [[4, 7, 11, 16, 22], [1, 2, 3, 5, 8]]\<rparr>, dy27, ym27, dx27)"
  by code_simp

text \<open>
  C10 (as amended). When \<open>y_min1\<close> and \<open>delta_x\<close> are \<open>None\<close> and \<open>delta_y_1_T\<close> is an array
  of more than one element, the constructor raises ValueError from the truth value of
  the array. When all three matrices are supplied it succeeds and stores them. When all
  three are omitted it succeeds exactly when the builder succeeds on the series, the
  lag order and the deterministic terms it was given.
\<close>

theorem init_supplied_test:
  "(1 < size_of dy \<longrightarrow>
      VECMResults_init endog_tot p r alpha beta gamma sigma_u det (Some dy) None None =
        Inl (ValueError ''The truth value of an array with more than one element is ambiguous. Use a.any() or a.all()''))
   \<and> (\<exists>res. VECMResults_init endog_tot p r alpha beta gamma sigma_u det
               (Some dy) (Some ym) (Some dx) = Inr res
          \<and> res_delta_y_1_T res = Some dy \<and> res_y_min1 res = ym \<and> res_delta_x res = Some dx)
   \<and> ((\<exists>res. VECMResults_init endog_tot p r alpha beta gamma sigma_u det None None None
               = Inr res)
        \<longleftrightarrow> (\<exists>m. endog_matrices endog_tot p det = Inr m))"
proof (intro conjI impI)
  assume "1 < size_of dy"
  then show "VECMResults_init endog_tot p r alpha beta gamma sigma_u det (Some dy) None None =
        Inl (ValueError ''The truth value of an array with more than one element is ambiguous. Use a.any() or a.all()'')"
    by (simp add: VECMResults_init_def truth_value_def Let_def case_prod_beta)
next
  show "\<exists>res. VECMResults_init endog_tot p r alpha beta gamma sigma_u det
               (Some dy) (Some ym) (Some dx) = Inr res
          \<and> res_delta_y_1_T res = Some dy \<and> res_y_min1 res = ym \<and> res_delta_x res = Some dx"
    by (simp add: VECMResults_init_def need_def Let_def case_prod_beta)
next
  show "(\<exists>res. VECMResults_init endog_tot p r alpha beta gamma sigma_u det None None None
               = Inr res)
        \<longleftrightarrow> (\<exists>m. endog_matrices endog_tot p det = Inr m)"
    by (cases "endog_matrices endog_tot p det")
       (auto simp add: VECMResults_init_def need_def Let_def case_prod_beta)
qed

theorem init_supplied_test_witness:
  "1 < size_of dy27
   \<and> VECMResults_init y27 2 1 alpha0 beta0 gamma0 sigma0 '''' (Some dy27) None None =
       Inl (ValueError ''The truth value of an array with more than one element is ambiguous. Use a.any() or a.all()'')
   \<and> (\<exists>res. VECMResults_init y27 2 1 alpha0 beta0 gamma0 sigma0 ''''
               (Some dy27) (Some ym27) (Some dx27) = Inr res
          \<and> res_delta_y_1_T res = Some dy27 \<and> res_y_min1 res = ym27
          \<and> res_delta_x res = Some dx27)"
proof -
  have h: "1 < size_of dy27"
    by (simp add: size_of_def shape0_def shape1_def dy27_def)
  from h init_supplied_test [of dy27 y27 2 1 alpha0 beta0 gamma0 sigma0 "''''" ym27 dx27]
  show ?thesis by blast
qed

text \<open>The claim as stated fails: with all three matrices omitted the constructor raises
  on a series of five observations with seasonal terms, because the builder does.\<close>

theorem init_omitted_counterexample:
  "VECMResults_init y25 2 1 alpha0 beta0 gamma_s sigma0 ''s'' None None None =
     Inl (ValueError ''all the input array dimensions except for the concatenation axis must match exactly'')"
  by code_simp

text \<open>
  C4. With the three matrices omitted, the constructor stores what the builder returns
  for the lag count \<open>level_var_lag_order\<close>, the lag order of the VAR representation. The
  estimator built its matrices with the lag count of the VEC representation, which is one
  less. On the series \<open>y27\<close> and VAR order 2 the estimator's matrices have 5 columns and
  \<open>delta_x\<close> has 2 rows; the constructor recomputes matrices of 4 columns and a \<open>delta_x\<close>
  of 4 rows.
\<close>

theorem init_recomputes_with_var_order:
  "map_sum id (\<lambda>res. (res_delta_y_1_T res, res_y_min1 res, res_delta_x res, res_T res))
     (VECMResults_init y27 2 1 alpha0 beta0 gamma0 sigma0 '''' None None None) =
     Inr (Some \<lparr>ncols = 4, rws = [[3, 4, 5, 6], [1, 1, 2, 3]]\<rparr>,
          \<lparr>ncols = 4, rws = [[4, 7, 11, 16], [1, 2, 3, 5]]\<rparr>,
          Some \<lparr>ncols = 4, rws = [[2, 3, 4, 5], [0, 1, 1, 2], [1, 2, 3, 4], [1, 0, 1, 1]]\<rparr>,
          4)
   \<and> map_sum id snd (endog_matrices y27 1 '''') =
     Inr (\<lparr>ncols = 5, rws = [[2, 3, 4, 5, 6], [0, 1, 1, 2, 3]]\<rparr>,
          \<lparr>ncols = 5, rws = [[2, 4, 7, 11, 16], [1, 1, 2, 3, 5]]\<rparr>,
          \<lparr>ncols = 5, rws = [[1, 2, 3, 4, 5], [1, 0, 1, 1, 2]]\<rparr>)"
  by code_simp

lemma init_omitted_is_builder:
  assumes "VECMResults_init endog_tot p r alpha beta gamma sigma_u det None None None = Inr res"
  shows "\<exists>y_1_T dy dx. endog_matrices endog_tot p det = Inr (y_1_T, dy, res_y_min1 res, dx)
           \<and> res_delta_y_1_T res = Some dy \<and> res_delta_x res = Some dx"
  using assms
  by (cases "endog_matrices endog_tot p det")
     (auto simp add: VECMResults_init_def need_def Let_def case_prod_beta)

subsection \<open>Blocks of size zero\<close>

text \<open>
  C9. When the block of deterministic terms inside the cointegration relation has size
  zero, its standard errors, t-values and p-values are that block itself, an array of
  size zero: nothing is computed, so nothing raises and no entry is non-finite. The same
  holds for the block of deterministic terms outside the cointegration relation.
\<close>

theorem zero_size_blocks:
  "(size_of (res_det_coef_coint self) = 0 \<longrightarrow>
      stderr_det_coef_coint la self = Inr (res_det_coef_coint self)
      \<and> tvalues_det_coef_coint la self = Inr (res_det_coef_coint self)
      \<and> pvalues_det_coef_coint la self = Inr (res_det_coef_coint self))
   \<and> (size_of (res_det_coef self) = 0 \<longrightarrow>
      stderr_det_coef la self = Inr (res_det_coef self)
      \<and> tvalues_det_coef la self = Inr (res_det_coef self)
      \<and> pvalues_det_coef la self = Inr (res_det_coef self))"
  by (simp add: stderr_det_coef_coint_def tvalues_det_coef_coint_def
      pvalues_det_coef_coint_def stderr_det_coef_def tvalues_det_coef_def
      pvalues_det_coef_def)

theorem zero_size_blocks_witness:
  "size_of (res_det_coef_coint results0) = 0 \<and> size_of (res_det_coef results0) = 0
   \<and> stderr_det_coef_coint la_fail results0 = Inr \<lparr>ncols = 1, rws = []\<rparr>
   \<and> tvalues_det_coef_coint la_fail results0 = Inr \<lparr>ncols = 1, rws = []\<rparr>
   \<and> pvalues_det_coef_coint la_fail results0 = Inr \<lparr>ncols = 1, rws = []\<rparr>
   \<and> stderr_det_coef la_fail results0 = Inr \<lparr>ncols = 0, rws = [[], []]\<rparr>
   \<and> tvalues_det_coef la_fail results0 = Inr \<lparr>ncols = 0, rws = [[], []]\<rparr>
   \<and> pvalues_det_coef la_fail results0 = Inr \<lparr>ncols = 0, rws = [[], []]\<rparr>"
proof -
  have h1: "size_of (res_det_coef_coint results0) = 0"
    by (simp add: results0_def size_of_def shape0_def)
  have h2: "size_of (res_det_coef results0) = 0"
    by (simp add: results0_def size_of_def shape1_def)
  have e1: "res_det_coef_coint results0 = \<lparr>ncols = 1, rws = []\<rparr>"
    by (simp add: results0_def)
  have e2: "res_det_coef results0 = \<lparr>ncols = 0, rws = [[], []]\<rparr>"
    by (simp add: results0_def)
  from h1 h2 zero_size_blocks [of results0 la_fail] show ?thesis
    by (simp add: e1 e2)
qed

subsection \<open>Matrices by their entries\<close>

lemma mk_sel [simp]: "ncols (mk n m f) = m" "shape0 (mk n m f) = n" "shape1 (mk n m f) = m"
  by (simp_all add: mk_def shape0_def shape1_def)

lemma mk_nth [simp]: "i < n \<Longrightarrow> j < m \<Longrightarrow> rws (mk n m f) ! i ! j = f i j"
  by (simp add: mk_def)

lemma mk_cong: "(\<And>i j. i < n \<Longrightarrow> j < m \<Longrightarrow> f i j = g i j) \<Longrightarrow> mk n m f = mk n m g"
  by (simp add: mk_def)

lemma mk_eq_iff: "mk n m f = mk n' m' g \<longleftrightarrow> n = n' \<and> m = m' \<and> (\<forall>i<n. \<forall>j<m. f i j = g i j)"
proof
  assume a: "mk n m f = mk n' m' g"
  then have m: "m = m'" by (simp add: mk_def)
  from a have "shape0 (mk n m f) = shape0 (mk n' m' g)" by simp
  then have n: "n = n'" by simp
  have "f i j = g i j" if "i < n" "j < m" for i j
  proof -
    have "rws (mk n m f) ! i ! j = rws (mk n' m' g) ! i ! j" using a by simp
    then show ?thesis using that n m by simp
  qed
  with n m show "n = n' \<and> m = m' \<and> (\<forall>i<n. \<forall>j<m. f i j = g i j)" by blast
next
  assume "n = n' \<and> m = m' \<and> (\<forall>i<n. \<forall>j<m. f i j = g i j)"
  then show "mk n m f = mk n' m' g" by (auto intro: mk_cong)
qed

lemma wf_mk: "wf (mk n m f)"
  by (simp add: wf_def mk_def list_all_iff)

lemma wf_is_mk: "wf a \<Longrightarrow> a = mk (shape0 a) (ncols a) (\<lambda>i j. rws a ! i ! j)"
proof -
  assume w: "wf a"
  have "rws a = map (\<lambda>i. map (\<lambda>j. rws a ! i ! j) [0..<ncols a]) [0..<length (rws a)]"
  proof (rule nth_equalityI)
    show "length (rws a) = length (map (\<lambda>i. map (\<lambda>j. rws a ! i ! j) [0..<ncols a]) [0..<length (rws a)])"
      by simp
  next
    fix i assume i: "i < length (rws a)"
    then have "length (rws a ! i) = ncols a" using w by (simp add: wf_def list_all_length)
    then have "map (\<lambda>j. rws a ! i ! j) [0..<ncols a] = rws a ! i"
      by (metis map_nth)
    with i show "rws a ! i = map (\<lambda>i. map (\<lambda>j. rws a ! i ! j) [0..<ncols a]) [0..<length (rws a)] ! i"
      by simp
  qed
  then show ?thesis by (simp add: mk_def shape0_def)
qed

lemma identity_mk: "identity n = mk n n (\<lambda>i j. if i = j then 1 else 0)"
  by (simp add: identity_def mk_def)

lemma zeros_mk: "zeros n m = mk n m (\<lambda>i j. 0)"
  by (simp add: zeros_def mk_def map_replicate_const)

lemma transpose_mk: "transpose_arr (mk n m f) = mk m n (\<lambda>i j. f j i)"
  by (simp add: transpose_arr_def mk_def shape0_def)

lemma dot_mk: "dot (mk n m f) (mk m k g) = Inr (mk n k (\<lambda>i j. \<Sum>l<m. f i l * g l j))"
  by (simp add: dot_def mk_def shape0_def interv_sum_list_conv_sum_set_nat atLeast0LessThan
      cong: map_cong)

lemma dot_mk_mismatch: "m \<noteq> m' \<Longrightarrow> \<exists>e. dot (mk n m f) (mk m' k g) = Inl e"
  by (simp add: dot_def)

lemma stretch_mk: "stretch (mk n m f) n m = mk n m f"
  by (cases "n = 1"; cases "m = 1") (auto simp: stretch_def mk_def shape0_def)

lemma map2_same_upt: "map2 h (map f [0..<m]) (map g [0..<m]) = map (\<lambda>j. h (f j) (g j)) [0..<m]"
  by (rule nth_equalityI) simp_all

lemma elementwise_mk:
  "elementwise h (mk n m f) (mk n m g) = Inr (mk n m (\<lambda>i j. h (f i j) (g i j)))"
proof -
  have "map2 (map2 h) (rws (mk n m f)) (rws (mk n m g)) = rws (mk n m (\<lambda>i j. h (f i j) (g i j)))"
    by (simp add: mk_def map2_same_upt cong: map_cong)
  then show ?thesis
    by (simp add: elementwise_def broadcast_dim_def stretch_mk)
qed

lemma map_arr_mk: "map_arr h (mk n m f) = mk n m (\<lambda>i j. h (f i j))"
  by (simp add: map_arr_def mk_def)

lemma py_slice_take: "py_slice None (Some (int k)) xs = take k xs"
  by (simp add: py_slice_def slice_bound_def min_def Let_def)

lemma py_slice_drop: "py_slice (Some (int k)) None xs = drop k xs"
  by (simp add: py_slice_def slice_bound_def min_def Let_def)

lemma py_slice_mid: "lo \<le> hi \<Longrightarrow> py_slice (Some (int lo)) (Some (int hi)) xs = take (hi - lo) (drop lo xs)"
  by (auto simp add: py_slice_def slice_bound_def min_def Let_def)

lemma map_upt_shift: "lo \<le> hi \<Longrightarrow> map f [lo..<hi] = map (\<lambda>j. f (lo + j)) [0..<hi - lo]"
  by (rule nth_equalityI) simp_all

lemma col_slice_mk:
  "lo \<le> hi \<Longrightarrow> hi \<le> m \<Longrightarrow>
   col_slice (Some (int lo)) (Some (int hi)) (mk n m f) = mk n (hi - lo) (\<lambda>i j. f i (lo + j))"
  by (simp add: col_slice_def py_slice_mid mk_def take_map drop_map
      map_upt_shift [of lo hi] cong: map_cong)

subsection \<open>The level-VAR representation\<close>

lemma col_slice_mk_take:
  "hi \<le> m \<Longrightarrow> col_slice None (Some (int hi)) (mk n m f) = mk n hi f"
  by (simp add: col_slice_def py_slice_take mk_def take_map cong: map_cong)

lemma col_slice_mk_drop:
  "lo \<le> m \<Longrightarrow> col_slice (Some (int lo)) None (mk n m f) = mk n (m - lo) (\<lambda>i j. f i (lo + j))"
  by (simp add: col_slice_def py_slice_drop mk_def drop_map map_upt_shift [of lo m] cong: map_cong)

lemma assign_block_mk:
  "i < length A \<Longrightarrow> assign_block A K (int i) (mk K K f) = Inr (A[i := mk K K f])"
  by (simp add: assign_block_def Let_def stretch_mk)

lemma var_repr_loop_mk:
  assumes "\<And>i. i \<in> set js \<Longrightarrow> 1 \<le> i \<and> i < length A \<and> K * (i + 1) \<le> m"
  shows "\<exists>A'. var_repr_loop (mk K m g) K js A = Inr A' \<and> length A' = length A
           \<and> (\<forall>i\<in>set js. A' ! i = mk K K (\<lambda>a b. g a (K * i + b) - g a (K * (i - 1) + b)))
           \<and> (\<forall>j. j \<notin> set js \<longrightarrow> A' ! j = A ! j)"
  using assms
proof (induction js arbitrary: A)
  case Nil
  then show ?case by simp
next
  case (Cons i js)
  have i: "1 \<le> i" "i < length A" "K * (i + 1) \<le> m" using Cons.prems [of i] by simp_all
  have le1: "K * i \<le> K * (i + 1)" by simp
  have le2: "K * (i - 1) \<le> K * i" by simp
  have le3: "K * i \<le> m" using i(3) le1 by linarith
  have s1: "col_slice (Some (int K * int i)) (Some (int K * (int i + 1))) (mk K m g)
            = mk K K (\<lambda>a b. g a (K * i + b))"
    using col_slice_mk [OF le1 i(3), of K g]
    by (simp add: algebra_simps flip: of_nat_mult)
  have e: "int i - 1 = int (i - 1)" using i(1) by simp
  have k: "K * i - K * (i - Suc 0) = K" using i(1)
    by (cases i) simp_all
  have s2: "col_slice (Some (int K * (int i - 1))) (Some (int K * int i)) (mk K m g)
            = mk K K (\<lambda>a b. g a (K * (i - 1) + b))"
    using col_slice_mk [OF le2 le3, of K g] unfolding e
    by (simp add: k flip: of_nat_mult)
  let ?blk = "mk K K (\<lambda>a b. g a (K * i + b) - g a (K * (i - 1) + b))"
  have sub: "np_sub (mk K K (\<lambda>a b. g a (K * i + b))) (mk K K (\<lambda>a b. g a (K * (i - 1) + b)))
             = Inr ?blk"
    by (simp add: np_sub_def elementwise_mk)
  have prem: "\<And>j. j \<in> set js \<Longrightarrow> 1 \<le> j \<and> j < length (A[i := ?blk]) \<and> K * (j + 1) \<le> m"
    using Cons.prems by simp
  from Cons.IH [OF prem] obtain A' where A':
    "var_repr_loop (mk K m g) K js (A[i := ?blk]) = Inr A'" "length A' = length A"
    "\<forall>j\<in>set js. A' ! j = mk K K (\<lambda>a b. g a (K * j + b) - g a (K * (j - 1) + b))"
    "\<forall>j. j \<notin> set js \<longrightarrow> A' ! j = (A[i := ?blk]) ! j"
    by auto
  have step: "var_repr_loop (mk K m g) K (i # js) A = Inr A'"
    by (simp only: var_repr_loop.simps s1 s2 sub bind_Inr assign_block_mk [OF i(2)] A'(1))
  have "A' ! i = ?blk"
  proof (cases "i \<in> set js")
    case True then show ?thesis using A'(3) by simp
  next
    case False then show ?thesis using A'(4) i(2) by simp
  qed
  moreover have "\<forall>j. j \<notin> set (i # js) \<longrightarrow> A' ! j = A ! j" using A'(4) by simp
  ultimately show ?case using step A'(2,3) by auto
qed

text \<open>
  C7. In a container with \<open>K\<close> equations and VAR order \<open>p = lags + 1\<close>, \<open>lags \<ge> 1\<close>, whose
  \<open>alpha\<close> and \<open>beta\<close> have \<open>K\<close> rows and as many columns as each other and whose \<open>gamma\<close> is
  \<open>K \<times> K (p - 1)\<close>, \<open>var_repr\<close> returns exactly \<open>p\<close> matrices of shape \<open>K \<times> K\<close>: the first is
  \<open>Pi + I\<close> plus the first \<open>K\<close> columns of \<open>gamma\<close>, the last is minus the last \<open>K\<close> columns
  of \<open>gamma\<close>, and the \<open>i\<close>-th between them is columns \<open>K i .. K (i + 1)\<close> of \<open>gamma\<close> minus
  columns \<open>K (i - 1) .. K i\<close>.
\<close>

theorem var_repr_blocks:
  assumes "wf (res_alpha self)" "wf (res_beta self)" "wf (res_gamma self)"
    and "shape0 (res_alpha self) = res_K self"
    and "shape0 (res_beta self) = res_K self"
    and "ncols (res_beta self) = ncols (res_alpha self)"
    and "shape0 (res_gamma self) = res_K self"
    and "ncols (res_gamma self) = res_K self * (res_p self - 1)"
    and "2 \<le> res_p self"
  shows "var_repr self =
           Inr (map (\<lambda>i. mk (res_K self) (res_K self) (level_var_entry self i)) [0..<res_p self])"
proof -
  define K where "K = res_K self"
  define p where "p = res_p self"
  define r where "r = ncols (res_alpha self)"
  define fa where "fa = (\<lambda>i j. rws (res_alpha self) ! i ! j)"
  define fb where "fb = (\<lambda>i j. rws (res_beta self) ! i ! j)"
  define g where "g = (\<lambda>i j. rws (res_gamma self) ! i ! j)"
  define m where "m = K * (p - 1)"
  have al: "res_alpha self = mk K r fa"
    using wf_is_mk [OF assms(1)] assms(4) by (simp add: K_def r_def fa_def)
  have be: "res_beta self = mk K r fb"
    using wf_is_mk [OF assms(2)] assms(5,6) by (simp add: K_def r_def fb_def)
  have ga: "res_gamma self = mk K m g"
    using wf_is_mk [OF assms(3)] assms(7,8) by (simp add: K_def m_def g_def p_def)
  have p2: "2 \<le> p" using assms(9) by (simp add: p_def)
  have "K * 1 \<le> K * (p - 1)" using p2 by (intro mult_le_mono2) simp
  then have Km: "K \<le> m" by (simp add: m_def)
  let ?pi = "mk K K (\<lambda>i j. \<Sum>l<r. fa i l * fb j l)"
  have d: "dot (res_alpha self) (transpose_arr (res_beta self)) = Inr ?pi"
    by (simp add: al be transpose_mk dot_mk)
  let ?x1 = "mk K K (\<lambda>i j. (\<Sum>l<r. fa i l * fb j l) + (if i = j then 1 else 0))"
  have a1: "np_add ?pi (identity K) = Inr ?x1"
    by (simp add: np_add_def identity_mk elementwise_mk)
  have c1: "col_slice None (Some (int K)) (mk K m g) = mk K K g"
    by (rule col_slice_mk_take [OF Km])
  let ?b0 = "mk K K (\<lambda>i j. (\<Sum>l<r. fa i l * fb j l) + (if i = j then 1 else 0) + g i j)"
  have a2: "np_add ?x1 (mk K K g) = Inr ?b0"
    by (simp add: np_add_def elementwise_mk)
  let ?A0 = "replicate p (zeros K K)"
  have as0: "assign_block ?A0 K 0 ?b0 = Inr (?A0[0 := ?b0])"
    using assign_block_mk [of 0 ?A0 K] p2 by simp
  have "p - 2 \<le> p - 1" by simp
  then have lo: "K * (p - 2) \<le> m" unfolding m_def by (rule mult_le_mono2)
  have mk2: "m - K * (p - 2) = K" using p2
    by (simp add: m_def flip: diff_mult_distrib2)
  have e2: "int K * (int p - 2) = int (K * (p - 2))" using p2 by (simp add: of_nat_diff)
  let ?bl = "mk K K (\<lambda>i j. - g i (K * (p - 2) + j))"
  have c2: "neg (col_slice (Some (int K * (int p - 2))) None (mk K m g)) = ?bl"
    unfolding e2 by (simp only: col_slice_mk_drop [OF lo] mk2 neg_def map_arr_mk)
  let ?A1 = "?A0[0 := ?b0]"
  have e3: "int p - 1 = int (p - 1)" using p2 by simp
  have as1: "assign_block ?A1 K (int p - 1) ?bl = Inr (?A1[p - 1 := ?bl])"
    unfolding e3 using assign_block_mk [of "p - 1" ?A1 K] p2 by simp
  let ?A2 = "?A1[p - 1 := ?bl]"
  have prem: "1 \<le> i \<and> i < length ?A2 \<and> K * (i + 1) \<le> m" if "i \<in> set [1..<p - 1]" for i
  proof -
    from that have a: "1 \<le> i" "i < p - 1" by auto
    then have "i + 1 \<le> p - 1" by simp
    then have "K * (i + 1) \<le> m" unfolding m_def by (rule mult_le_mono2)
    moreover have "i < length ?A2" using a by simp
    ultimately show ?thesis using a by blast
  qed
  from var_repr_loop_mk [where g = g and A = "?A2" and js = "[1..<p - 1]" and K = K and m = m, OF prem] obtain A' where A':
    "var_repr_loop (mk K m g) K [1..<p - 1] ?A2 = Inr A'" "length A' = p"
    "\<forall>i\<in>set [1..<p - 1]. A' ! i = mk K K (\<lambda>a b. g a (K * i + b) - g a (K * (i - 1) + b))"
    "\<forall>j. j \<notin> set [1..<p - 1] \<longrightarrow> A' ! j = ?A2 ! j"
    by auto
  have vr: "var_repr self = Inr A'"
    unfolding var_repr_def Let_def d K_def [symmetric] p_def [symmetric] ga
    by (simp only: bind_Inr a1 c1 a2 as0 c2 as1 A'(1))
  have "A' = map (\<lambda>i. mk K K (level_var_entry self i)) [0..<p]"
  proof (rule nth_equalityI)
    show "length A' = length (map (\<lambda>i. mk K K (level_var_entry self i)) [0..<p])"
      using A'(2) by simp
  next
    fix i assume "i < length A'"
    then have ip: "i < p" using A'(2) by simp
    consider "i = 0" | "i = p - 1" "i \<noteq> 0" | "1 \<le> i" "i < p - 1" using ip by linarith
    then have "A' ! i = mk K K (level_var_entry self i)"
    proof cases
      case 1
      then have "A' ! i = ?b0" using A'(4) p2 by simp
      also have "\<dots> = mk K K (level_var_entry self i)"
        using 1 by (intro mk_cong)
          (simp add: level_var_entry_def Let_def fa_def fb_def g_def r_def
            interv_sum_list_conv_sum_set_nat atLeast0LessThan)
      finally show ?thesis .
    next
      case 2
      then have "A' ! i = ?bl" using A'(4) p2 by simp
      also have "\<dots> = mk K K (level_var_entry self i)"
        using 2 by (intro mk_cong)
          (simp add: level_var_entry_def Let_def g_def K_def p_def)
      finally show ?thesis .
    next
      case 3
      then have "A' ! i = mk K K (\<lambda>a b. g a (K * i + b) - g a (K * (i - 1) + b))"
        using A'(3) by simp
      also have "\<dots> = mk K K (level_var_entry self i)"
        using 3 by (intro mk_cong)
          (simp add: level_var_entry_def Let_def g_def K_def p_def)
      finally show ?thesis .
    qed
    then show "A' ! i = map (\<lambda>i. mk K K (level_var_entry self i)) [0..<p] ! i"
      using ip by simp
  qed
  with vr show ?thesis by (simp add: K_def p_def)
qed

lemma example_shapes:
  "wf alpha0" "wf beta0" "shape0 alpha0 = 2" "shape0 beta0 = 2" "ncols beta0 = ncols alpha0"
  by (simp_all add: wf_def alpha0_def beta0_def shape0_def)

theorem var_repr_blocks_witness:
  "var_repr results0 =
     Inr [\<lparr>ncols = 2, rws = [[5 / 2, 3], [2, 3]]\<rparr>, \<lparr>ncols = 2, rws = [[- 1, - 2], [- 3, - 4]]\<rparr>]
   \<and> var_repr results_lag2 =
     Inr [\<lparr>ncols = 2, rws = [[5 / 2, 3], [2, 3]]\<rparr>, \<lparr>ncols = 2, rws = [[4, 4], [4, 4]]\<rparr>,
          \<lparr>ncols = 2, rws = [[- 5, - 6], [- 7, - 8]]\<rparr>]
   \<and> var_repr results_lag4 =
     Inr [\<lparr>ncols = 2, rws = [[5 / 2, 3], [2, 3]]\<rparr>, \<lparr>ncols = 2, rws = [[4, 4], [4, 4]]\<rparr>,
          \<lparr>ncols = 2, rws = [[4, 2], [- 2, - 4]]\<rparr>, \<lparr>ncols = 2, rws = [[- 2, - 2], [- 2, - 2]]\<rparr>,
          \<lparr>ncols = 2, rws = [[- 7, - 6], [- 3, - 2]]\<rparr>]"
proof (intro conjI)
  have a: "var_repr results0 =
      Inr (map (\<lambda>i. mk (res_K results0) (res_K results0) (level_var_entry results0 i)) [0..<res_p results0])"
    by (rule var_repr_blocks)
       (simp_all add: results0_def example_shapes, simp_all add: wf_def gamma0_def shape0_def)
  show "var_repr results0 =
     Inr [\<lparr>ncols = 2, rws = [[5 / 2, 3], [2, 3]]\<rparr>, \<lparr>ncols = 2, rws = [[- 1, - 2], [- 3, - 4]]\<rparr>]"
    unfolding a by code_simp
  have b: "var_repr results_lag2 =
      Inr (map (\<lambda>i. mk (res_K results_lag2) (res_K results_lag2) (level_var_entry results_lag2 i)) [0..<res_p results_lag2])"
    by (rule var_repr_blocks)
       (simp_all add: results_lag2_def results0_def example_shapes, simp_all add: wf_def shape0_def)
  show "var_repr results_lag2 =
     Inr [\<lparr>ncols = 2, rws = [[5 / 2, 3], [2, 3]]\<rparr>, \<lparr>ncols = 2, rws = [[4, 4], [4, 4]]\<rparr>,
          \<lparr>ncols = 2, rws = [[- 5, - 6], [- 7, - 8]]\<rparr>]"
    unfolding b by code_simp
  have c: "var_repr results_lag4 =
      Inr (map (\<lambda>i. mk (res_K results_lag4) (res_K results_lag4) (level_var_entry results_lag4 i)) [0..<res_p results_lag4])"
    by (rule var_repr_blocks)
       (simp_all add: results_lag4_def results0_def example_shapes, simp_all add: wf_def shape0_def)
  show "var_repr results_lag4 =
     Inr [\<lparr>ncols = 2, rws = [[5 / 2, 3], [2, 3]]\<rparr>, \<lparr>ncols = 2, rws = [[4, 4], [4, 4]]\<rparr>,
          \<lparr>ncols = 2, rws = [[4, 2], [- 2, - 4]]\<rparr>, \<lparr>ncols = 2, rws = [[- 2, - 2], [- 2, - 2]]\<rparr>,
          \<lparr>ncols = 2, rws = [[- 7, - 6], [- 3, - 2]]\<rparr>]"
    unfolding c by code_simp
qed

text \<open>With no lagged difference (VAR order one) \<open>gamma\<close> has no column and \<open>var_repr\<close> raises:
  the sum for the first matrix does not broadcast.\<close>

lemma var_repr_order_one_raises:
  "var_repr (results0\<lparr>res_p := 1, res_gamma := \<lparr>ncols = 0, rws = [[], []]\<rparr>\<rparr>) =
     Inl (ValueError ''operands could not be broadcast together'')"
  by code_simp

subsection \<open>The seasonal rows of the builder\<close>

lemma sum4: "(\<Sum>k<4. f k) = f 0 + f 1 + f 2 + (f (3::nat) :: real)"
  by (simp add: numeral_eq_Suc lessThan_Suc)

lemma one_hit_aux:
  assumes "m < (4::nat)" "i < (4::nat)"
  shows "(if (m + 1) mod 4 = i then 1 else 0) + (if (m + 2) mod 4 = i then 1 else 0)
         + (if (m + 3) mod 4 = i then 1 else 0) + (if (m + 4) mod 4 = i then (1::real) else 0) = 1"
proof -
  from assms(1) have "m = 0 \<or> m = 1 \<or> m = 2 \<or> m = 3" by linarith
  moreover from assms(2) have "i = 0 \<or> i = 1 \<or> i = 2 \<or> i = 3" by linarith
  ultimately show ?thesis by (elim disjE) simp_all
qed

lemma one_hit:
  assumes "i < (4::nat)"
  shows "(\<Sum>k<4. if (j + k + 1) mod 4 = i then (1::real) else 0) = 1"
proof -
  define m where "m = j mod 4"
  have m: "m < 4" by (simp add: m_def)
  have e: "(j + k + 1) mod 4 = (m + k + 1) mod 4" for k
    unfolding m_def using mod_add_left_eq [of j 4 "k + 1"] by (simp only: add.assoc)
  have "(\<Sum>k<4. if (j + k + 1) mod 4 = i then (1::real) else 0)
        = (\<Sum>k<4. if (m + k + 1) mod 4 = i then (1::real) else 0)"
    by (simp only: e)
  also have "\<dots> = (if (m + 1) mod 4 = i then 1 else 0) + (if (m + 2) mod 4 = i then 1 else 0)
         + (if (m + 3) mod 4 = i then 1 else 0) + (if (m + 4) mod 4 = i then (1::real) else 0)"
    unfolding sum4 by (simp add: add.commute)
  also have "\<dots> = 1" by (rule one_hit_aux [OF m assms])
  finally show ?thesis .
qed

lemma factB:
  assumes "j < 3" "i < (3::nat)"
  shows "(i \<le> 1 + j \<and> (1 + j - i) mod 4 = 0) = ((j + 1) mod 4 = i)"
proof -
  from assms(1) have "j = 0 \<or> j = 1 \<or> j = 2" by linarith
  moreover from assms(2) have "i = 0 \<or> i = 1 \<or> i = 2" by linarith
  ultimately show ?thesis by (elim disjE) simp_all
qed

lemma factC:
  assumes "\<not> j < 3" "i < (3::nat)"
  shows "(i \<le> j - 3 \<and> (j - 3 - i) mod 4 = 0) = ((j + 1) mod 4 = i)"
proof -
  define n where "n = j - 3"
  have j: "j + 1 = n + 4" using assms(1) by (simp add: n_def)
  have r: "(j + 1) mod 4 = n mod 4" unfolding j by simp
  have i4: "i mod 4 = i" using assms(2) by simp
  show ?thesis
  proof (cases "i \<le> n")
    case True
    have "(n mod 4 = i mod 4) = (4 dvd n - i)" using True by (rule mod_eq_dvd_iff_nat)
    then show ?thesis using True unfolding r n_def [symmetric] i4 by (simp add: mod_eq_0_iff_dvd)
  next
    case False
    then have "n mod 4 = n" using assms(2) by simp
    then show ?thesis using False unfolding r n_def [symmetric] by simp
  qed
qed

lemma seasonal_window:
  assumes "i < 4"
  shows "(\<Sum>k<4. seasonal_entry i (j + k)) = 0"
proof -
  have "(\<Sum>k<4. seasonal_entry i (j + k))
        = (\<Sum>k<4. if (j + k + 1) mod 4 = i then (1::real) else 0) - (\<Sum>k<(4::nat). 1 / 4)"
    by (simp add: seasonal_entry_def sum_subtractf)
  then show ?thesis using one_hit [OF assms, of j] by simp
qed

lemma strided_row:
  "set_strided (replicate T 0) i 4 1 = map (\<lambda>j. if i \<le> j \<and> (j - i) mod 4 = 0 then 1 else 0) [0..<T]"
  by (simp add: set_strided_def)

lemma rotated_row:
  assumes "i < 3" "4 \<le> T"
  shows "py_slice (Some 1) (Some 4) (set_strided (replicate T 0) i 4 1)
         @ py_slice None (Some (- 3)) (set_strided (replicate T 0) i 4 1)
         = map (\<lambda>j. if (j + 1) mod 4 = i then 1 else 0) [0..<T]"
proof -
  define s where "s = set_strided (replicate T 0) i 4 1"
  have ls: "length s = T" by (simp add: s_def set_strided_def)
  have sn: "s ! j = (if i \<le> j \<and> (j - i) mod 4 = 0 then 1 else 0)" if "j < T" for j
    using that by (simp add: s_def strided_row)
  have s1: "py_slice (Some 1) (Some 4) s = take 3 (drop 1 s)"
    using assms(2) by (simp add: py_slice_def slice_bound_def Let_def ls min_def)
  have "nat (int T - 3) = T - 3" by simp
  then have s2: "py_slice None (Some (- 3)) s = take (T - 3) s"
    using assms(2) by (simp add: py_slice_def slice_bound_def Let_def ls)
  have l1: "length (take 3 (drop 1 s)) = 3" using assms(2) ls by simp
  have l2: "length (take (T - 3) s) = T - 3" using ls by simp
  have "take 3 (drop 1 s) @ take (T - 3) s = map (\<lambda>j. if (j + 1) mod 4 = i then 1 else 0) [0..<T]"
  proof (rule nth_equalityI)
    show "length (take 3 (drop 1 s) @ take (T - 3) s)
          = length (map (\<lambda>j. if (j + 1) mod 4 = i then (1::real) else 0) [0..<T])"
      using assms(2) l1 l2 by simp
  next
    fix j assume "j < length (take 3 (drop 1 s) @ take (T - 3) s)"
    then have jT: "j < T" using l1 l2 assms(2) by simp
    show "(take 3 (drop 1 s) @ take (T - 3) s) ! j
          = map (\<lambda>j. if (j + 1) mod 4 = i then 1 else 0) [0..<T] ! j"
    proof (cases "j < 3")
      case True
      then have "(take 3 (drop 1 s) @ take (T - 3) s) ! j = take 3 (drop 1 s) ! j"
        using l1 by (simp add: nth_append)
      also have "\<dots> = s ! (1 + j)" using True ls assms(2) by simp
      also have "\<dots> = (if i \<le> 1 + j \<and> (1 + j - i) mod 4 = 0 then 1 else 0)"
        using True assms(2) by (intro sn) simp
      also have "\<dots> = (if (j + 1) mod 4 = i then 1 else 0)"
      proof -
        have "(i \<le> 1 + j \<and> (1 + j - i) mod 4 = 0) = ((j + 1) mod 4 = i)"
          using True assms(1) by (rule factB)
        then show ?thesis by simp
      qed
      finally show ?thesis using jT by simp
    next
      case False
      then have "(take 3 (drop 1 s) @ take (T - 3) s) ! j = take (T - 3) s ! (j - 3)"
        using l1 by (simp add: nth_append)
      also have "\<dots> = s ! (j - 3)" using False jT by simp
      also have "\<dots> = (if i \<le> j - 3 \<and> (j - 3 - i) mod 4 = 0 then 1 else 0)"
        using jT by (intro sn) simp
      also have "\<dots> = (if (j + 1) mod 4 = i then 1 else 0)"
      proof -
        have "(i \<le> j - 3 \<and> (j - 3 - i) mod 4 = 0) = ((j + 1) mod 4 = i)"
          using False assms(1) by (rule factC)
        then show ?thesis by simp
      qed
      finally show ?thesis using jT by simp
    qed
  qed
  then have "py_slice (Some 1) (Some 4) s @ py_slice None (Some (- 3)) s
         = map (\<lambda>j. if (j + 1) mod 4 = i then 1 else 0) [0..<T]"
    by (simp only: s1 s2)
  then show ?thesis by (simp only: s_def)
qed

lemma seasonal_row:
  assumes "i < 3" "4 \<le> T"
  shows "map (\<lambda>x. x - 1 / 4)
           (py_slice (Some 1) (Some 4) (set_strided (replicate T 0) i 4 1)
            @ py_slice None (Some (- 3)) (set_strided (replicate T 0) i 4 1))
         = map (seasonal_entry i) [0..<T]"
  unfolding rotated_row [OF assms] by (simp add: seasonal_entry_def)

lemma upt3: "[0..<3] = [0, 1, 2::nat]"
  by (simp add: numeral_3_eq_3 numeral_2_eq_2)
lemma seasons_range: "[0..<num_of_seas - 1] = [0, 1, 2]"
  by (simp add: num_of_seas_def upt3)
lemma seasons_zeros: "zeros (num_of_seas - 1) T = \<lparr>ncols = T, rws = [replicate T 0, replicate T 0, replicate T 0]\<rparr>"
  by (simp add: zeros_def num_of_seas_def numeral_3_eq_3)
lemma mark_three: "mark_seasons [0, 1, 2] \<lparr>ncols = T, rws = [a, b, c]\<rparr>
           = \<lparr>ncols = T, rws = [set_strided a 0 num_of_seas 1, set_strided b 1 num_of_seas 1, set_strided c 2 num_of_seas 1]\<rparr>"
  by (simp add: numeral_2_eq_2)
lemma mk_three_rows: "mk 3 T f = \<lparr>ncols = T, rws = [map (f 0) [0..<T], map (f 1) [0..<T], map (f 2) [0..<T]]\<rparr>"
  by (simp add: mk_def upt3)

lemma seasons_matrix_mk:
  assumes "4 \<le> T"
  shows "seasons_matrix T = Inr (mk 3 T seasonal_entry)"
proof -
  let ?r = "\<lambda>i. set_strided (replicate T 0) i 4 1"
  have m: "mark_seasons [0..<num_of_seas - 1] (zeros (num_of_seas - 1) T)
           = \<lparr>ncols = T, rws = [?r 0, ?r 1, ?r 2]\<rparr>"
    unfolding seasons_range seasons_zeros mark_three by (simp add: num_of_seas_def)
  have c1: "length (py_slice (Some 1) (Some 4) (replicate T ())) = 3"
    using assms by (auto simp add: py_slice_def slice_bound_def Let_def min_def)
  have "nat (int T - 3) = T - 3" by simp
  then have c2: "length (py_slice None (Some (- 3)) (replicate T ())) = T - 3"
    using assms by (simp add: py_slice_def slice_bound_def Let_def)
  have h: "hstack (col_slice (Some 1) (Some 4) \<lparr>ncols = T, rws = [?r 0, ?r 1, ?r 2]\<rparr>)
                 (col_slice None (Some (- 3)) \<lparr>ncols = T, rws = [?r 0, ?r 1, ?r 2]\<rparr>)
           = Inr \<lparr>ncols = T, rws = map (\<lambda>i. py_slice (Some 1) (Some 4) (?r i)
                                              @ py_slice None (Some (- 3)) (?r i)) [0, 1, 2]\<rparr>"
    using assms by (simp add: hstack_def col_slice_def shape0_def c1 c2)
  have fin: "sub_scalar \<lparr>ncols = T, rws = map (\<lambda>i. py_slice (Some 1) (Some 4) (?r i)
                                              @ py_slice None (Some (- 3)) (?r i)) [0, 1, 2]\<rparr>
               (1 / real num_of_seas) = mk 3 T seasonal_entry"
    unfolding mk_three_rows sub_scalar_def
    using seasonal_row [of 0 T] seasonal_row [of 1 T] seasonal_row [of 2 T] assms
    by (simp add: num_of_seas_def)
  show ?thesis
    unfolding seasons_matrix_def Let_def m
    by (simp only: h bind_Inr fin)
qed

lemma length_py_slice_rev:
  assumes "2 \<le> p" "j + p \<le> length xs + 1"
  shows "length (py_slice_rev (int j + int p - 2)
                   (if int j - 1 < 0 then None else Some (int j - 1)) xs) = p - 1"
proof (cases "j = 0")
  case True
  have a: "min (int (length xs) - 1) (int p - 2) = int p - 2" using assms True by simp
  have "nat (int p - 2 + 1) = p - 1" using assms(1) by simp
  then show ?thesis using assms True
    by (simp add: py_slice_rev_def Let_def a)
next
  case False
  have a: "min (int (length xs) - 1) (int j + int p - 2) = int j + int p - 2"
    using assms by simp
  have b: "min (int (length xs) - 1) (int j - 1) = int j - 1" using assms by simp
  have c: "nat (int j + int p - 2 - (int j - 1)) = p - 1" using assms(1) by simp
  have d: "nat (int j - 1 + 1) = j" by simp
  show ?thesis using assms False
    by (simp add: py_slice_rev_def Let_def a b c d)
qed

lemma length_concat_transpose:
  "length (concat (rws (transpose_arr a))) = ncols a * shape0 a"
  by (simp add: transpose_arr_def length_concat shape0_def comp_def sum_list_triv)

lemma delta_x_col_ok:
  assumes "2 \<le> p" "j + p \<le> ncols delta_y + 1" "shape0 delta_y = K"
  shows "\<exists>c. delta_x_col delta_y K p j = Inr c \<and> length c = K * (p - 1)"
proof -
  let ?s = "col_slice_rev (int j + int p - 2)
             (if int j - 1 < 0 then None else Some (int j - 1)) delta_y"
  have n: "ncols ?s = p - 1"
    using length_py_slice_rev [OF assms(1), of j "replicate (ncols delta_y) ()"] assms(2)
    by (simp add: col_slice_rev_def)
  have k: "shape0 ?s = K" using assms(3) by (simp add: col_slice_rev_def shape0_def)
  have sz: "size_of (transpose_arr ?s) = K * (p - 1)"
    using n k by (simp add: size_of_def shape0_def shape1_def transpose_arr_def)
  have "length (concat (rws (transpose_arr ?s))) = K * (p - 1)"
    using n k by (simp add: length_concat_transpose)
  with sz show ?thesis by (simp add: delta_x_col_def reshape_1d_def)
qed

lemma fill_delta_x_ok:
  assumes "2 \<le> p" "shape0 delta_y = K" "shape0 delta_x = K * (p - 1)"
    and "\<And>j. j \<in> set js \<Longrightarrow> j + p \<le> ncols delta_y + 1 \<and> j < ncols delta_x"
  shows "\<exists>d. fill_delta_x delta_y K p js delta_x = Inr d \<and> ncols d = ncols delta_x
           \<and> shape0 d = shape0 delta_x"
  using assms(3,4)
proof (induction js arbitrary: delta_x)
  case Nil
  then show ?case by simp
next
  case (Cons j js)
  have j: "j + p \<le> ncols delta_y + 1" "j < ncols delta_x" using Cons.prems(2) [of j] by simp_all
  from delta_x_col_ok [OF assms(1) j(1) assms(2)] obtain c where
    c: "delta_x_col delta_y K p j = Inr c" "length c = K * (p - 1)" by blast
  let ?d = "\<lparr>ncols = ncols delta_x, rws = map2 (\<lambda>r x. r[j := x]) (rws delta_x) c\<rparr>"
  have sc: "set_col delta_x j c = Inr ?d"
    using j(2) c(2) Cons.prems(1) by (simp add: set_col_def)
  have s0: "shape0 ?d = K * (p - 1)"
    using c(2) Cons.prems(1) by (simp add: shape0_def)
  have pre: "\<And>i. i \<in> set js \<Longrightarrow> i + p \<le> ncols delta_y + 1 \<and> i < ncols ?d"
    using Cons.prems(2) by simp
  from Cons.IH [OF s0 pre] obtain d where
    "fill_delta_x delta_y K p js ?d = Inr d" "ncols d = ncols ?d" "shape0 d = shape0 ?d"
    by blast
  then show ?case using c(1) sc s0 Cons.prems(1) by simp
qed

lemma ncols_col_slice_from:
  "ncols (col_slice (Some (int a)) None y) = ncols y - a"
  by (simp add: col_slice_def py_slice_def slice_bound_def Let_def)

lemma ncols_col_slice_lag:
  "ncols (col_slice (Some (int a)) (Some (- 1)) y) = ncols y - 1 - a"
proof -
  have "nat (int (ncols y) - 1) = ncols y - 1" by simp
  then show ?thesis
    by (simp add: col_slice_def py_slice_def slice_bound_def Let_def min_def)
qed

lemma vstack_row:
  "length v = ncols a \<Longrightarrow> vstack a (atleast_2d v) = Inr \<lparr>ncols = ncols a, rws = rws a @ [v]\<rparr>"
  by (simp add: vstack_def atleast_2d_def)

text \<open>
  With at least one lagged difference and an effective sample of at least four columns
  the builder returns, and its differenced-regressor matrix has the three seasonal rows
  between the lagged differences (and the row of ones) and the trend row.
\<close>

lemma seasonal_rows_lagged:
  assumes "1 \<le> lags" "lags + 5 \<le> ncols y" "str_in ''s'' det"
  shows "\<exists>y_1_T dy ym dx pre post.
           endog_matrices y lags det = Inr (y_1_T, dy, ym, dx)
           \<and> ncols dx = ncols y - (lags + 1)
           \<and> rws dx = pre @ rws (mk 3 (ncols dx) seasonal_entry) @ post
           \<and> length pre = lags * shape0 y + (if str_in ''co'' det then 1 else 0)
           \<and> length post = (if str_in ''lt'' det then 1 else 0)
           \<and> (\<forall>i<3. \<forall>j. j + 4 \<le> ncols dx \<longrightarrow>
                 (\<Sum>k<4. rws dx ! (length pre + i) ! (j + k)) = 0)"
proof -
  define p where "p = lags + 1"
  define K where "K = shape0 y"
  define T where "T = ncols y - p"
  define y_1_T where "y_1_T = col_slice (Some (int p)) None y"
  define delta_y where "delta_y = np_diff y"
  define dy where "dy = col_slice (Some (int p - 1)) None delta_y"
  define ym0 where "ym0 = col_slice (Some (int p - 1)) (Some (- 1)) y"
  have p2: "2 \<le> p" using assms(1) by (simp add: p_def)
  have T4: "4 \<le> T" using assms(2) by (simp add: T_def p_def)
  have sT: "shape1 y_1_T = T" by (simp add: y_1_T_def shape1_def ncols_col_slice_from T_def)
  have e1: "int p - 1 = int (p - 1)" using p2 by simp
  have nym: "ncols ym0 = T"
    unfolding ym0_def e1 ncols_col_slice_lag using p2 by (simp add: T_def)
  define ym where "ym = (if str_in ''cc'' det then \<lparr>ncols = T, rws = rws ym0 @ [ones T]\<rparr> else ym0)"
  have ym: "(if str_in ''cc'' det then vstack ym0 (atleast_2d (ones T)) else Inr ym0) = Inr ym"
    using nym by (simp add: ym_def vstack_row ones_def)
  have dyK: "shape0 delta_y = K" by (simp add: delta_y_def np_diff_def shape0_def K_def)
  have ndy: "ncols delta_y = ncols y - 1" by (simp add: delta_y_def np_diff_def)
  have z0: "shape0 (zeros (lags * K) T) = K * (p - 1)" by (simp add: zeros_def shape0_def p_def)
  have zc: "ncols (zeros (lags * K) T) = T" by (simp add: zeros_def)
  have pre: "j + p \<le> ncols delta_y + 1 \<and> j < ncols (zeros (lags * K) T)" if "j \<in> set [0..<T]" for j
    using that assms(2) unfolding ndy zc by (simp add: T_def p_def)
  have "\<exists>d. fill_delta_x delta_y K p [0..<T] (zeros (lags * K) T) = Inr d
          \<and> ncols d = ncols (zeros (lags * K) T) \<and> shape0 d = shape0 (zeros (lags * K) T)"
    by (rule fill_delta_x_ok [OF p2 dyK z0]) (rule pre)
  then obtain d where
    d: "fill_delta_x delta_y K p [0..<T] (zeros (lags * K) T) = Inr d" "ncols d = T"
       "shape0 d = K * (p - 1)"
    using zc z0 by auto
  define d1 where "d1 = (if str_in ''co'' det then \<lparr>ncols = T, rws = rws d @ [ones T]\<rparr> else d)"
  have co: "(if str_in ''co'' det then vstack d (atleast_2d (ones T)) else Inr d) = Inr d1"
    using d(2) by (simp add: d1_def vstack_row ones_def)
  have d1c: "ncols d1 = T" using d(2) by (simp add: d1_def)
  have d1r: "length (rws d1) = lags * K + (if str_in ''co'' det then 1 else 0)"
    using d(3) by (simp add: d1_def shape0_def p_def)
  define d2 where "d2 = \<lparr>ncols = T, rws = rws d1 @ rws (mk 3 T seasonal_entry)\<rparr>"
  have se: "(if str_in ''s'' det
             then bind (seasons_matrix (shape1 d1)) (\<lambda>seasons. vstack d1 seasons)
             else Inr d1) = Inr d2"
    using assms(3) d1c seasons_matrix_mk [OF T4]
    by (simp add: shape1_def vstack_def d2_def)
  define post where "post = (if str_in ''lt'' det then [arange_plus1 T] else [])"
  define d3 where "d3 = \<lparr>ncols = T, rws = rws d2 @ post\<rparr>"
  have lt: "(if str_in ''lt'' det then vstack d2 (atleast_2d (arange_plus1 T)) else Inr d2) = Inr d3"
    by (simp add: d3_def post_def d2_def vstack_row arange_plus1_def)
  have em: "endog_matrices y lags det = Inr (y_1_T, dy, ym, d3)"
    unfolding endog_matrices_def Let_def
    unfolding p_def [symmetric] K_def [symmetric] y_1_T_def [symmetric] delta_y_def [symmetric]
      dy_def [symmetric] ym0_def [symmetric]
    by (simp only: sT ym bind_Inr d(1) co se lt)
  have rows: "rws d3 = rws d1 @ rws (mk 3 (ncols d3) seasonal_entry) @ post"
    by (simp add: d3_def d2_def)
  have win: "(\<Sum>k<4. rws d3 ! (length (rws d1) + i) ! (j + k)) = 0"
    if "i < 3" "j + 4 \<le> ncols d3" for i j
  proof -
    have "rws d3 ! (length (rws d1) + i) = rws (mk 3 T seasonal_entry) ! i"
      using that(1) by (simp add: d3_def d2_def nth_append mk_def)
    also have "\<dots> = map (seasonal_entry i) [0..<T]"
      using that(1) by (simp add: mk_def)
    finally have r: "rws d3 ! (length (rws d1) + i) = map (seasonal_entry i) [0..<T]" .
    have "(\<Sum>k<4. rws d3 ! (length (rws d1) + i) ! (j + k)) = (\<Sum>k<4. seasonal_entry i (j + k))"
      unfolding r using that(2) by (intro sum.cong) (simp_all add: d3_def)
    also have "\<dots> = 0" using that(1) by (intro seasonal_window) simp
    finally show ?thesis .
  qed
  have "ncols d3 = ncols y - (lags + 1)" by (simp add: d3_def T_def p_def)
  moreover have "length post = (if str_in ''lt'' det then 1 else 0)" by (simp add: post_def)
  moreover have "length (rws d1) = lags * shape0 y + (if str_in ''co'' det then 1 else 0)"
    using d1r by (simp add: K_def)
  ultimately show ?thesis using em rows win by blast
qed

lemma set_col_shape:
  "set_col a j v = Inr b \<Longrightarrow> ncols b = ncols a \<and> shape0 b = shape0 a"
  by (auto simp add: set_col_def shape0_def split: if_splits)

lemma fill_delta_x_shape:
  "fill_delta_x delta_y K p js delta_x = Inr d \<Longrightarrow>
   ncols d = ncols delta_x \<and> shape0 d = shape0 delta_x"
proof (induction js arbitrary: delta_x)
  case Nil
  then show ?case by simp
next
  case (Cons j js)
  from Cons.prems obtain c dx' where
    "set_col delta_x j c = Inr dx'" "fill_delta_x delta_y K p js dx' = Inr d"
    by (auto simp: bind_Inr_iff)
  with Cons.IH [of dx'] set_col_shape [of delta_x j c dx'] show ?case by simp
qed

lemma seasonal_rows_returned:
  assumes "lags + 5 \<le> ncols y" "str_in ''s'' det"
    and "endog_matrices y lags det = Inr (y_1_T, dy, ym, dx)"
  shows "\<exists>pre post.
           ncols dx = ncols y - (lags + 1)
           \<and> rws dx = pre @ rws (mk 3 (ncols dx) seasonal_entry) @ post
           \<and> length pre = lags * shape0 y + (if str_in ''co'' det then 1 else 0)
           \<and> length post = (if str_in ''lt'' det then 1 else 0)
           \<and> (\<forall>i<3. \<forall>j. j + 4 \<le> ncols dx \<longrightarrow>
                 (\<Sum>k<4. rws dx ! (length pre + i) ! (j + k)) = 0)"
proof -
  define p where "p = lags + 1"
  define K where "K = shape0 y"
  define T where "T = ncols y - p"
  define y1 where "y1 = col_slice (Some (int p)) None y"
  define delta_y where "delta_y = np_diff y"
  define dy0 where "dy0 = col_slice (Some (int p - 1)) None delta_y"
  define ym0 where "ym0 = col_slice (Some (int p - 1)) (Some (- 1)) y"
  have T4: "4 \<le> T" using assms(1) by (simp add: T_def p_def)
  have sT: "shape1 y1 = T" by (simp add: y1_def shape1_def ncols_col_slice_from T_def)
  note em = assms(3) [unfolded endog_matrices_def Let_def, folded p_def K_def,
      folded y1_def delta_y_def, folded dy0_def ym0_def, unfolded sT]
  from em obtain d d1 d2 where
    f: "fill_delta_x delta_y K p [0..<T] (zeros (lags * K) T) = Inr d" and
    co: "(if str_in ''co'' det then vstack d (atleast_2d (ones T)) else Inr d) = Inr d1" and
    se: "(if str_in ''s'' det
          then bind (seasons_matrix (shape1 d1)) (\<lambda>seasons. vstack d1 seasons)
          else Inr d1) = Inr d2" and
    lt: "(if str_in ''lt'' det then vstack d2 (atleast_2d (arange_plus1 T)) else Inr d2) = Inr dx"
    by (auto simp: bind_Inr_iff)
  from fill_delta_x_shape [OF f] have dc: "ncols d = T" and dr: "shape0 d = lags * K"
    by (simp_all add: zeros_def shape0_def)
  have d1: "d1 = (if str_in ''co'' det then \<lparr>ncols = T, rws = rws d @ [ones T]\<rparr> else d)"
    using co dc by (simp add: vstack_row ones_def split: if_splits)
  have d1c: "ncols d1 = T" using dc by (simp add: d1)
  have d1r: "length (rws d1) = lags * K + (if str_in ''co'' det then 1 else 0)"
    using dr by (simp add: d1 shape0_def)
  have d2: "d2 = \<lparr>ncols = T, rws = rws d1 @ rws (mk 3 T seasonal_entry)\<rparr>"
    using se assms(2) d1c seasons_matrix_mk [OF T4]
    by (simp add: shape1_def vstack_def)
  define post where "post = (if str_in ''lt'' det then [arange_plus1 T] else [])"
  have d3: "dx = \<lparr>ncols = T, rws = rws d2 @ post\<rparr>"
    using lt by (simp add: post_def d2 vstack_row arange_plus1_def split: if_splits)
  have rows: "rws dx = rws d1 @ rws (mk 3 (ncols dx) seasonal_entry) @ post"
    by (simp add: d3 d2)
  have win: "(\<Sum>k<4. rws dx ! (length (rws d1) + i) ! (j + k)) = 0"
    if "i < 3" "j + 4 \<le> ncols dx" for i j
  proof -
    have "rws dx ! (length (rws d1) + i) = rws (mk 3 T seasonal_entry) ! i"
      using that(1) by (simp add: d3 d2 nth_append mk_def)
    also have "\<dots> = map (seasonal_entry i) [0..<T]"
      using that(1) by (simp add: mk_def)
    finally have r: "rws dx ! (length (rws d1) + i) = map (seasonal_entry i) [0..<T]" .
    have "(\<Sum>k<4. rws dx ! (length (rws d1) + i) ! (j + k)) = (\<Sum>k<4. seasonal_entry i (j + k))"
      unfolding r using that(2) by (intro sum.cong) (simp_all add: d3)
    also have "\<dots> = 0" using that(1) by (intro seasonal_window) simp
    finally show ?thesis .
  qed
  have "ncols dx = ncols y - (lags + 1)" by (simp add: d3 T_def p_def)
  moreover have "length post = (if str_in ''lt'' det then 1 else 0)" by (simp add: post_def)
  moreover have "length (rws d1) = lags * shape0 y + (if str_in ''co'' det then 1 else 0)"
    using d1r by (simp add: K_def)
  ultimately show ?thesis using rows win by blast
qed

lemma size_of_transpose: "size_of (transpose_arr a) = ncols a * shape0 a"
  by (simp add: size_of_def shape0_def shape1_def transpose_arr_def)

lemma builder_lag0_raises:
  assumes "1 \<le> shape0 y" "2 \<le> ncols y"
  shows "endog_matrices y 0 det = Inl (ValueError ''cannot reshape array'')"
proof -
  define T where "T = ncols y - 1"
  define delta_y where "delta_y = np_diff y"
  define ym0 where "ym0 = col_slice (Some (int (0 + 1) - 1)) (Some (- 1)) y"
  have T1: "1 \<le> T" using assms(2) by (simp add: T_def)
  have sT: "shape1 (col_slice (Some (int (0 + 1))) None y) = T"
    using ncols_col_slice_from [of 1 y] by (simp add: shape1_def T_def)
  have up: "[0..<T] = 0 # [1..<T]" using T1 by (simp add: upt_conv_Cons)
  have nym: "ncols ym0 = T"
    using ncols_col_slice_lag [of 0 y] by (simp add: ym0_def T_def)
  define ym where "ym = (if str_in ''cc'' det then \<lparr>ncols = T, rws = rws ym0 @ [ones T]\<rparr> else ym0)"
  have ym: "(if str_in ''cc'' det then vstack ym0 (atleast_2d (ones T)) else Inr ym0) = Inr ym"
    using nym by (simp add: ym_def vstack_row ones_def)
  have n: "ncols delta_y = T" by (simp add: delta_y_def np_diff_def T_def)
  have len: "length (py_slice_rev (- 1) None (replicate T ())) = T"
    using T1 by (simp add: py_slice_rev_def Let_def)
  have nc: "ncols (col_slice_rev (- 1) None delta_y) = T"
    unfolding col_slice_rev_def n using len by simp
  have sh: "shape0 (col_slice_rev (- 1) None delta_y) = shape0 y"
    by (simp add: col_slice_rev_def delta_y_def np_diff_def shape0_def)
  have "size_of (transpose_arr (col_slice_rev (- 1) None delta_y)) = T * shape0 y"
    unfolding size_of_transpose nc sh ..
  moreover have "T * shape0 y \<noteq> 0" using T1 assms(1) by simp
  ultimately have col: "delta_x_col delta_y (shape0 y) (0 + 1) 0 = Inl (ValueError ''cannot reshape array'')"
    by (simp add: delta_x_col_def reshape_1d_def)
  have fill: "fill_delta_x delta_y (shape0 y) (0 + 1) [0..<T] z = Inl (ValueError ''cannot reshape array'')" for z
    unfolding up by (simp only: fill_delta_x.simps col bind_Inl)
  show ?thesis
    unfolding endog_matrices_def Let_def sT
    unfolding delta_y_def [symmetric] ym0_def [symmetric]
    by (simp only: ym bind_Inr fill bind_Inl)
qed

text \<open>
  C8 (as amended). For every series and lag count whose effective sample has at least
  four columns (\<open>lags + 5\<close> observations or more), with seasonal terms requested: whenever
  the builder returns, its differenced-regressor matrix is the \<open>K lags\<close> rows of lagged
  differences (and the row of ones when a constant outside is asked for), then exactly
  three seasonal rows, then the trend row when asked for; seasonal row \<open>i\<close> is the
  period-4 indicator rotated to start at its second position, less \<open>1 / 4\<close>, and it sums
  to zero over any four consecutive columns. The builder does return for every lag count
  of at least one. At lag count zero it raises for every series of at least one variable
  and two observations (\<open>builder_lag0_raises\<close>): the start index \<open>j + p - 2\<close> of the slice
  is \<open>-1\<close> at \<open>j = 0\<close> and wraps to the last column. That is a slip of the code, which this
  statement neither promises nor denies.
\<close>

theorem seasonal_rows:
  assumes "lags + 5 \<le> ncols y" "str_in ''s'' det"
  shows "(1 \<le> lags \<longrightarrow> (\<exists>m. endog_matrices y lags det = Inr m))
         \<and> (\<forall>y_1_T dy ym dx.
               endog_matrices y lags det = Inr (y_1_T, dy, ym, dx) \<longrightarrow>
               (\<exists>pre post.
                  ncols dx = ncols y - (lags + 1)
                  \<and> rws dx = pre @ rws (mk 3 (ncols dx) seasonal_entry) @ post
                  \<and> length pre = lags * shape0 y + (if str_in ''co'' det then 1 else 0)
                  \<and> length post = (if str_in ''lt'' det then 1 else 0)
                  \<and> (\<forall>i<3. \<forall>j. j + 4 \<le> ncols dx \<longrightarrow>
                        (\<Sum>k<4. rws dx ! (length pre + i) ! (j + k)) = 0)))"
proof (intro conjI impI allI)
  assume "1 \<le> lags"
  from seasonal_rows_lagged [OF this assms] show "\<exists>m. endog_matrices y lags det = Inr m"
    by blast
next
  fix y_1_T dy ym dx
  assume "endog_matrices y lags det = Inr (y_1_T, dy, ym, dx)"
  from seasonal_rows_returned [OF assms this]
  show "\<exists>pre post.
          ncols dx = ncols y - (lags + 1)
          \<and> rws dx = pre @ rws (mk 3 (ncols dx) seasonal_entry) @ post
          \<and> length pre = lags * shape0 y + (if str_in ''co'' det then 1 else 0)
          \<and> length post = (if str_in ''lt'' det then 1 else 0)
          \<and> (\<forall>i<3. \<forall>j. j + 4 \<le> ncols dx \<longrightarrow>
                (\<Sum>k<4. rws dx ! (length pre + i) ! (j + k)) = 0)" .
qed

theorem seasonal_rows_witness:
  "(1::nat) \<le> 1 \<and> 1 + 5 \<le> ncols y27 \<and> str_in ''s'' ''s''
   \<and> (\<exists>y_1_T dy ym dx pre post.
           endog_matrices y27 1 ''s'' = Inr (y_1_T, dy, ym, dx)
           \<and> ncols dx = ncols y27 - (1 + 1)
           \<and> rws dx = pre @ rws (mk 3 (ncols dx) seasonal_entry) @ post
           \<and> length pre = 1 * shape0 y27 + (if str_in ''co'' ''s'' then 1 else 0)
           \<and> length post = (if str_in ''lt'' ''s'' then 1 else 0)
           \<and> (\<forall>i<3. \<forall>j. j + 4 \<le> ncols dx \<longrightarrow>
                 (\<Sum>k<4. rws dx ! (length pre + i) ! (j + k)) = 0))"
proof -
  have h: "1 + 5 \<le> ncols y27" "str_in ''s'' ''s''"
    by (simp_all add: y27_def)
  note t = seasonal_rows [OF h]
  from t obtain y_1_T dy ym dx where
    m: "endog_matrices y27 1 ''s'' = Inr (y_1_T, dy, ym, dx)"
    by (metis le_refl prod_cases4)
  with t have "\<exists>pre post.
      ncols dx = ncols y27 - (1 + 1)
      \<and> rws dx = pre @ rws (mk 3 (ncols dx) seasonal_entry) @ post
      \<and> length pre = 1 * shape0 y27 + (if str_in ''co'' ''s'' then 1 else 0)
      \<and> length post = (if str_in ''lt'' ''s'' then 1 else 0)
      \<and> (\<forall>i<3. \<forall>j. j + 4 \<le> ncols dx \<longrightarrow>
            (\<Sum>k<4. rws dx ! (length pre + i) ! (j + k)) = 0)"
    by blast
  with m h show ?thesis by blast
qed

lemma seasonal_rows_example:
  "endog_matrices y27 1 ''s'' =
     Inr (\<lparr>ncols = 5, rws = [[4, 7, 11, 16, 22], [1, 2, 3, 5, 8]]\<rparr>,
          \<lparr>ncols = 5, rws = [[2, 3, 4, 5, 6], [0, 1, 1, 2, 3]]\<rparr>,
          \<lparr>ncols = 5, rws = [[2, 4, 7, 11, 16], [1, 1, 2, 3, 5]]\<rparr>,
          \<lparr>ncols = 5,
             rws = [[1, 2, 3, 4, 5], [1, 0, 1, 1, 2],
                    [- (1 / 4), - (1 / 4), - (1 / 4), 3 / 4, - (1 / 4)],
                    [3 / 4, - (1 / 4), - (1 / 4), - (1 / 4), 3 / 4],
                    [- (1 / 4), 3 / 4, - (1 / 4), - (1 / 4), - (1 / 4)]]\<rparr>)"
  by code_simp

text \<open>The claim as stated fails: with five observations and one lagged difference the
  effective sample has three columns, the rotated seasonal block has two, and the builder
  raises when it stacks them.\<close>

theorem seasonal_rows_counterexample:
  "endog_matrices y25 1 ''s'' =
     Inl (ValueError ''all the input array dimensions except for the concatenation axis must match exactly'')"
  by code_simp

text \<open>With no lagged difference the builder raises for every series with an effective
  sample: the slice for the first column is the whole reversed difference matrix.\<close>

lemma builder_no_lag_raises:
  "endog_matrices y27 0 '''' = Inl (ValueError ''cannot reshape array'')"
  by code_simp

subsection \<open>Shapes\<close>

lemma shape0_col_slice: "shape0 (col_slice lo hi a) = shape0 a"
  by (simp add: col_slice_def shape0_def)



lemma dot_aligned: "dot a b = Inr c \<Longrightarrow> ncols a = shape0 b"
  by (auto simp add: dot_def split: if_splits)



lemma shape0_vstack: "vstack a b = Inr c \<Longrightarrow> shape0 c = shape0 a + shape0 b"
  by (auto simp add: vstack_def shape0_def split: if_splits)

lemma endog_matrices_parts:
  assumes "endog_matrices y lags det = Inr (y_1_T, dy, ym, dx)"
  shows "\<exists>dx'. dy = col_slice (Some (int (lags + 1) - 1)) None (np_diff y)
    \<and> (if str_in ''cc'' det
        then vstack (col_slice (Some (int (lags + 1) - 1)) (Some (- 1)) y)
               (atleast_2d (ones (shape1 (col_slice (Some (int (lags + 1))) None y))))
        else Inr (col_slice (Some (int (lags + 1) - 1)) (Some (- 1)) y)) = Inr ym
    \<and> (if str_in ''lt'' det
        then vstack dx' (atleast_2d (arange_plus1 (shape1 (col_slice (Some (int (lags + 1))) None y))))
        else Inr dx') = Inr dx"
  using assms unfolding endog_matrices_def Let_def bind_Inr_iff
  by (elim exE conjE) (simp only: sum.inject prod.inject, blast)

lemma endog_matrices_shapes:
  assumes "endog_matrices y lags det = Inr (y_1_T, dy, ym, dx)"
  shows "shape0 dy = shape0 y"
    and "shape0 ym = shape0 y + (if str_in ''cc'' det then 1 else 0)"
    and "str_in ''lt'' det \<Longrightarrow> 1 \<le> shape0 dx"
proof -
  from endog_matrices_parts [OF assms] obtain dx' where
    dy: "dy = col_slice (Some (int (lags + 1) - 1)) None (np_diff y)" and
    ym: "(if str_in ''cc'' det
        then vstack (col_slice (Some (int (lags + 1) - 1)) (Some (- 1)) y)
               (atleast_2d (ones (shape1 (col_slice (Some (int (lags + 1))) None y))))
        else Inr (col_slice (Some (int (lags + 1) - 1)) (Some (- 1)) y)) = Inr ym" and
    dx: "(if str_in ''lt'' det
        then vstack dx' (atleast_2d (arange_plus1 (shape1 (col_slice (Some (int (lags + 1))) None y))))
        else Inr dx') = Inr dx"
    by blast
  show "shape0 dy = shape0 y"
    by (simp add: dy shape0_col_slice) (simp add: np_diff_def shape0_def)
  have one: "shape0 (atleast_2d v) = 1" for v by (simp add: atleast_2d_def shape0_def)
  show "shape0 ym = shape0 y + (if str_in ''cc'' det then 1 else 0)"
    using ym by (auto simp add: shape0_col_slice one dest!: shape0_vstack split: if_splits)
  show "1 \<le> shape0 dx" if "str_in ''lt'' det"
    using dx that by (auto simp add: one dest!: shape0_vstack)
qed








subsection \<open>The least-squares estimator with a linear trend\<close>

lemma ncols_col_slice_to: "ncols (col_slice None (Some (int c)) a) = min c (ncols a)"
  by (simp add: col_slice_def py_slice_take)

lemma ncols_col_slice_rest: "ncols (col_slice (Some (int c)) None a) = ncols a - c"
  by (simp add: col_slice_def py_slice_drop)

lemma ls_pi_gamma_trend_raises:
  assumes lt: "str_in ''lt'' det"
    and ym: "shape0 ym = shape0 dy + (if str_in ''cc'' det then 1 else 0)"
    and dx: "1 \<le> shape0 dx"
  shows "ls_pi_gamma la dy ym dx lags det \<noteq> Inr x"
proof
  assume "ls_pi_gamma la dy ym dx lags det = Inr x"
  then obtain est y1 y2 where
    a: "dot (col_slice None (Some (int (shape0 ym + 1))) est) ym = Inr y1" and
    b: "dot (col_slice (Some (int (shape0 ym + 1))) None est) dx = Inr y2"
    unfolding ls_pi_gamma_def Let_def bind_Inr_iff hsplit_def case_prod_conv
    using lt ym by (auto simp add: add.commute add.left_commute)
  from dot_aligned [OF a] have "min (shape0 ym + 1) (ncols est) = shape0 ym"
    by (simp only: ncols_col_slice_to)
  then have "ncols est = shape0 ym" by (simp add: min_def split: if_splits)
  moreover from dot_aligned [OF b] have "ncols est - (shape0 ym + 1) = shape0 dx"
    by (simp only: ncols_col_slice_rest)
  ultimately show False using dx by simp
qed

lemma estimate_vecm_ls_trend_raises:
  assumes "str_in ''lt'' det"
  shows "estimate_vecm_ls la self lags det \<noteq> Inr x"
proof
  assume "estimate_vecm_ls la self lags det = Inr x"
  then obtain y_1_T dy ym dx z where
    e: "endog_matrices (vecm_y self) lags det = Inr (y_1_T, dy, ym, dx)" and
    l: "ls_pi_gamma la dy ym dx lags det = Inr z"
    by (auto simp add: estimate_vecm_ls_def bind_Inr_iff split: prod.splits)
  from endog_matrices_shapes [OF e] assms
  have "shape0 ym = shape0 dy + (if str_in ''cc'' det then 1 else 0)" "1 \<le> shape0 dx"
    by simp_all
  from ls_pi_gamma_trend_raises [OF assms this] l show False by simp
qed


text \<open>
  C3. The claim compares the \<open>Pi\<close> of the maximum-likelihood estimator at full rank with
  the \<open>Pi\<close> block of the least-squares estimator on the same data. With a linear trend
  among the deterministic terms the least-squares estimator has no \<open>Pi\<close> block to
  compare: it raises, for every series, lag count and linear-algebra layer. The builder
  appends the trend row to \<open>delta_x\<close> and leaves \<open>y_min1\<close> with \<open>K\<close> rows (one more with
  \<open>"cc"\<close>), while \<open>_ls_pi_gamma\<close> counts one column for the trend in \<open>pi_cols\<close>; so either
  \<open>pi_hat.dot(y_min1)\<close> or \<open>gamma_hat.dot(delta_x)\<close> is a product of misaligned shapes.
  The maximum-likelihood estimator takes the trend from \<open>delta_x\<close> and has no such count.
\<close>

theorem ls_raises_with_trend:
  assumes "str_in ''lt'' det"
  shows "\<exists>e. fst (fit la self (Some lags) ''ls'' det coint_rank) = Inl e"
proof (cases "estimate_vecm_ls la (self\<lparr>vecm_p := Some (lags + 1)\<rparr>) lags det")
  case (Inl e)
  then show ?thesis by (simp add: fit_def Let_def)
next
  case (Inr x)
  with estimate_vecm_ls_trend_raises [OF assms] show ?thesis by blast
qed

theorem ls_raises_with_trend_witness:
  "str_in ''lt'' ''lt'' \<and> (\<exists>e. fst (fit la_diag model2 (Some 1) ''ls'' ''lt'' None) = Inl e)"
  using ls_raises_with_trend [of "''lt''" la_diag model2 1 None] by simp

subsection \<open>Exact linear algebra on diagonal matrices\<close>




subsection \<open>A maximum-likelihood fit, step by step\<close>

text \<open>The builder, the projection helper, the moment matrices and the eigen-decomposition
  on \<open>y211\<close>: the eigenvalues come out as \<open>1/3, 4/5\<close>, the smaller one first.\<close>

lemma em211:
  "endog_matrices y211 1 '''' =
     Inr (\<lparr>ncols = 9, rws = [[0, 3, 0, 0, 0, 0, 0, 0, 0], [0, 0, 0, 0, 3, 0, - 3, 0, 3]]\<rparr>,
          dy211, ym211, dx211)"
  by code_simp

lemma r211: "r_matrices la_diag 9 (Some dx211) (Some dy211) ym211 = Inr (r0_211, r1_211)"
  by code_simp

lemma m211:
  "moment r0_211 r0_211 9 = Inr s00_211"
  "moment r0_211 r1_211 9 = Inr s01_211"
  "moment r1_211 r0_211 9 = Inr s01_211"
  "moment r1_211 r1_211 9 = Inr id2"
  by code_simp+

lemma svd211: "la_svd la_diag id2 = Inr (id2, [1, 1], id2)"
  by code_simp

lemma cd211: "chain_dot [id2, diag_matrix [1, 1], id2] = Inr id2"
  by code_simp

lemma sqrt211: "mat_sqrt la_diag id2 = Inr id2"
proof -
  have s: "sqrt_1d [1, 1] = Inr [1, 1]" by (simp add: sqrt_1d_def)
  show ?thesis
    unfolding mat_sqrt_def svd211 by (simp only: bind_Inr case_prod_conv s cd211)
qed

lemma rest211:
  "bind (la_inv la_diag id2) (\<lambda>s11_inv.
         bind (la_inv la_diag s00_211) (\<lambda>s00_inv.
         bind (chain_dot [s11_inv, s01_211, s00_inv, s01_211, s11_inv]) (\<lambda>prod.
         bind (la_eig la_diag prod) (\<lambda>(lambd, v).
         Inr (s00_211, s01_211, s01_211, id2, s11_inv, lambd, v)))))
   = Inr (s00_211, s01_211, s01_211, id2, id2, [1 / 3, 4 / 5], id2)"
  by code_simp

lemma sij211: "sij la_diag (Some dx211) (Some dy211) ym211 =
   Inr (s00_211, s01_211, s01_211, id2, id2, [1 / 3, 4 / 5], id2)"
proof -
  have T: "shape1 ym211 = 9" by (simp add: ym211_def shape1_def)
  show ?thesis
    unfolding sij_def Let_def T
    by (simp only: r211 bind_Inr case_prod_conv m211 sqrt211 rest211)
qed

lemma ml_steps_r1:
  "dot (transpose_arr (col_slice None (Some (int 1)) id2)) id2 = Inr \<lparr>ncols = 2, rws = [[1, 0]]\<rparr>"
  "la_inv la_diag (row_slice None (Some (int 1)) (transpose_arr \<lparr>ncols = 2, rws = [[1, 0]]\<rparr>)) = Inr \<lparr>ncols = 1, rws = [[1]]\<rparr>"
  "dot (transpose_arr \<lparr>ncols = 2, rws = [[1, 0]]\<rparr>) \<lparr>ncols = 1, rws = [[1]]\<rparr> = Inr \<lparr>ncols = 1, rws = [[1], [0]]\<rparr>"
  "dot s01_211 \<lparr>ncols = 1, rws = [[1], [0]]\<rparr> = Inr \<lparr>ncols = 1, rws = [[- (1 / 2)], [0]]\<rparr>"
  "dot (transpose_arr \<lparr>ncols = 1, rws = [[1], [0]]\<rparr>) id2 = Inr \<lparr>ncols = 2, rws = [[1, 0]]\<rparr>"
  "dot \<lparr>ncols = 2, rws = [[1, 0]]\<rparr> \<lparr>ncols = 1, rws = [[1], [0]]\<rparr> = Inr \<lparr>ncols = 1, rws = [[1]]\<rparr>"
  "la_inv la_diag \<lparr>ncols = 1, rws = [[1]]\<rparr> = Inr \<lparr>ncols = 1, rws = [[1]]\<rparr>"
  "dot \<lparr>ncols = 1, rws = [[- (1 / 2)], [0]]\<rparr> \<lparr>ncols = 1, rws = [[1]]\<rparr> = Inr \<lparr>ncols = 1, rws = [[- (1 / 2)], [0]]\<rparr>"
  "dot \<lparr>ncols = 1, rws = [[- (1 / 2)], [0]]\<rparr> (transpose_arr \<lparr>ncols = 1, rws = [[1], [0]]\<rparr>) = Inr \<lparr>ncols = 2, rws = [[- (1 / 2), 0], [0, 0]]\<rparr>"
  "dot \<lparr>ncols = 2, rws = [[- (1 / 2), 0], [0, 0]]\<rparr> ym211 = Inr \<lparr>ncols = 9, rws = [[- (3 / 2), 0, - (3 / 2), 0, 0, 0, 0, 0, 0], [0, 0, 0, 0, 0, 0, 0, 0, 0]]\<rparr>"
  "np_sub dy211 \<lparr>ncols = 9, rws = [[- (3 / 2), 0, - (3 / 2), 0, 0, 0, 0, 0, 0], [0, 0, 0, 0, 0, 0, 0, 0, 0]]\<rparr> = Inr \<lparr>ncols = 9, rws = [[- (3 / 2), 3, - (3 / 2), 0, 0, 0, 0, 0, 0], [0, 0, 0, 0, 3, - 3, - 3, 3, 3]]\<rparr>"
  "dot \<lparr>ncols = 9, rws = [[- (3 / 2), 3, - (3 / 2), 0, 0, 0, 0, 0, 0], [0, 0, 0, 0, 3, - 3, - 3, 3, 3]]\<rparr> (transpose_arr dx211) = Inr \<lparr>ncols = 2, rws = [[- 18, 0], [0, 0]]\<rparr>"
  "dot dx211 (transpose_arr dx211) = Inr \<lparr>ncols = 2, rws = [[36, 0], [0, 36]]\<rparr>"
  "la_inv la_diag \<lparr>ncols = 2, rws = [[36, 0], [0, 36]]\<rparr> = Inr \<lparr>ncols = 2, rws = [[1 / 36, 0], [0, 1 / 36]]\<rparr>"
  "dot \<lparr>ncols = 2, rws = [[- 18, 0], [0, 0]]\<rparr> \<lparr>ncols = 2, rws = [[1 / 36, 0], [0, 1 / 36]]\<rparr> = Inr \<lparr>ncols = 2, rws = [[- (1 / 2), 0], [0, 0]]\<rparr>"
  "dot \<lparr>ncols = 2, rws = [[- (1 / 2), 0], [0, 0]]\<rparr> dx211 = Inr \<lparr>ncols = 9, rws = [[- (3 / 2), 3 / 2, - (3 / 2), 3 / 2, 0, 0, 0, 0, 0], [0, 0, 0, 0, 0, 0, 0, 0, 0]]\<rparr>"
  "np_sub \<lparr>ncols = 9, rws = [[- (3 / 2), 3, - (3 / 2), 0, 0, 0, 0, 0, 0], [0, 0, 0, 0, 3, - 3, - 3, 3, 3]]\<rparr> \<lparr>ncols = 9, rws = [[- (3 / 2), 3 / 2, - (3 / 2), 3 / 2, 0, 0, 0, 0, 0], [0, 0, 0, 0, 0, 0, 0, 0, 0]]\<rparr> = Inr \<lparr>ncols = 9, rws = [[0, 3 / 2, 0, - (3 / 2), 0, 0, 0, 0, 0], [0, 0, 0, 0, 3, - 3, - 3, 3, 3]]\<rparr>"
  "dot \<lparr>ncols = 9, rws = [[0, 3 / 2, 0, - (3 / 2), 0, 0, 0, 0, 0], [0, 0, 0, 0, 3, - 3, - 3, 3, 3]]\<rparr> (transpose_arr \<lparr>ncols = 9, rws = [[0, 3 / 2, 0, - (3 / 2), 0, 0, 0, 0, 0], [0, 0, 0, 0, 3, - 3, - 3, 3, 3]]\<rparr>) = Inr \<lparr>ncols = 2, rws = [[9 / 2, 0], [0, 45]]\<rparr>"
  "div_scalar \<lparr>ncols = 2, rws = [[9 / 2, 0], [0, 45]]\<rparr> (real 9) = Inr \<lparr>ncols = 2, rws = [[1 / 2, 0], [0, 5]]\<rparr>"
  by code_simp+

lemma ml_init_r1:
  "VECMResults_init y211 2 1 \<lparr>ncols = 1, rws = [[- (1 / 2)], [0]]\<rparr> \<lparr>ncols = 1, rws = [[1], [0]]\<rparr>
     \<lparr>ncols = 2, rws = [[- (1 / 2), 0], [0, 0]]\<rparr> \<lparr>ncols = 2, rws = [[1 / 2, 0], [0, 5]]\<rparr> ''''
     (Some dy211) (Some ym211) (Some dx211) = Inr res211"
  by code_simp

lemma ml211:
  "estimate_vecm_ml la_diag (model2\<lparr>vecm_p := Some (1 + 1)\<rparr>) 1 '''' 1 = Inr (Results res211)"
proof -
  have y: "vecm_y (model2\<lparr>vecm_p := Some (1 + 1)\<rparr>) = y211" by (simp add: model2_def)
  have T: "shape1 \<lparr>ncols = 9, rws = [[0, 3, 0, 0, 0, 0, 0, 0, 0], [0, 0, 0, 0, 3, 0, - 3, 0, 3]]\<rparr> = 9"
    by (simp add: shape1_def)
  have p: "need ''p'' (vecm_p (model2\<lparr>vecm_p := Some (1 + 1)\<rparr>)) = Inr 2"
    by (simp add: need_def)
  show ?thesis
    unfolding estimate_vecm_ml_def y em211 bind_Inr case_prod_conv Let_def sij211 T
    by (simp only: bind_Inr ml_steps_r1 p ml_init_r1)
qed

lemma fit211:
  "fit la_diag model2 (Some 1) ''ml'' '''' (Some 1)
     = (Inr (Results res211), model2\<lparr>vecm_p := Some (1 + 1)\<rparr>)"
proof -
  have ne: "''ml'' \<noteq> ''ls''" "''ml'' \<noteq> ''egls''" by simp_all
  show ?thesis
    unfolding fit_def Let_def
    by (simp only: option.case ne if_False if_True simp_thms ml211)
qed


subsection \<open>The normalisation of beta\<close>









subsection \<open>The log-likelihood\<close>

text \<open>Whatever the linear-algebra layer, \<open>llf\<close> is the closed form over the first \<open>r\<close>
  eigenvalues in the order in which \<open>eig\<close> returned them; nothing sorts them.\<close>

lemma llf_closed_form:
  assumes "sij la (res_delta_x self) (res_delta_y_1_T self) (res_y_min1 self)
             = Inr (s00, s01, s10, s11, s11_inv, lambd, v)"
    and "la_det la s00 = Inr d"
  shows "llf la self =
     (if d \<le> 0 then Inl (ValueError ''math domain error'')
      else if list_ex (\<lambda>x. 1 \<le> x) (take (res_r self) lambd) then Inl NonFinite
      else Inr (llf_formula (res_K self) (res_T self) d (take (res_r self) lambd)))"
proof -
  have m: "map ln (take r (map (\<lambda>x. 1 - x) lambd)) = map (\<lambda>x. ln (1 - x)) (take r lambd)" for r
    by (simp add: take_map)
  have e: "list_ex (\<lambda>x. x \<le> 0) (take r (map (\<lambda>x. 1 - x) lambd))
           = list_ex (\<lambda>x. 1 \<le> x) (take r lambd)" for r
    by (simp add: take_map list_ex_iff)
  show ?thesis
    unfolding llf_def Let_def assms bind_Inr case_prod_conv log_det_def log_1d_def py_slice_take
      m e llf_formula_def
    by (simp add: bind_def)
qed


text \<open>
  C5. The claim has the \<open>r\<close> largest eigenvalues enter the log-likelihood. The code
  takes \<open>np.log(1 - lambd)[:r]\<close>, the first \<open>r\<close> in the order of \<open>numpy.linalg.eig\<close>, which
  does not sort. On the series \<open>y211\<close> with one lagged difference and rank one the matrix
  of the eigenvalue problem is diagonal with entries \<open>1/3\<close> and \<open>4/5\<close>; \<open>eig\<close> returns the
  eigenvalues in that order and \<open>llf\<close> uses \<open>1/3\<close>, where the closed form of the
  reduced-rank regression (the reference the code cites for this line) uses the largest,
  \<open>4/5\<close>. The two values differ by \<open>9 (log(2/3) - log(1/5)) / 2\<close>.
\<close>

theorem llf_first_eigenvalues:
  "fst (fit la_diag model2 (Some 1) ''ml'' '''' (Some 1)) = Inr (Results res211)
   \<and> sij la_diag (res_delta_x res211) (res_delta_y_1_T res211) (res_y_min1 res211)
       = Inr (s00_211, s01_211, s01_211, id2, id2, [1 / 3, 4 / 5], id2)
   \<and> la_det la_diag s00_211 = Inr (15 / 4)
   \<and> res_K res211 = 2 \<and> res_T res211 = 9 \<and> res_r res211 = 1
   \<and> llf la_diag res211 = Inr (llf_formula 2 9 (15 / 4) [1 / 3])
   \<and> top_by_magnitude 1 [1 / 3, 4 / 5] = [4 / 5]
   \<and> llf la_diag res211 \<noteq> Inr (llf_formula 2 9 (15 / 4) (top_by_magnitude 1 [1 / 3, 4 / 5]))"
proof -
  have a: "fst (fit la_diag model2 (Some 1) ''ml'' '''' (Some 1)) = Inr (Results res211)"
    by (simp only: fit211 fst_conv)
  have f: "res_delta_x res211 = Some dx211" "res_delta_y_1_T res211 = Some dy211"
    "res_y_min1 res211 = ym211" "res_K res211 = 2" "res_T res211 = 9" "res_r res211 = 1"
    by (simp_all add: res211_def)
  have s: "sij la_diag (res_delta_x res211) (res_delta_y_1_T res211) (res_y_min1 res211)
       = Inr (s00_211, s01_211, s01_211, id2, id2, [1 / 3, 4 / 5], id2)"
    by (simp only: f sij211)
  have d: "la_det la_diag s00_211 = Inr (15 / 4)" by code_simp
  have l: "llf la_diag res211 = Inr (llf_formula 2 9 (15 / 4) [1 / 3])"
    by (simp add: llf_closed_form [OF s d] f)
  have t: "top_by_magnitude 1 [1 / 3, 4 / 5] = [4 / 5::real]"
    by (simp add: top_by_magnitude_def)
  have "ln (2 / 3) \<noteq> ln (1 / 5::real)" by simp
  then have n: "llf_formula 2 9 (15 / 4) [1 / 3] \<noteq> llf_formula 2 9 (15 / 4) [4 / 5]"
    by (simp add: llf_formula_def)
  from a s d f l t n show ?thesis by simp
qed

end
